theory Spec2Isabelle
  imports Main "HOL-Library.AList" "HOL-Library.Word"
begin

section \<open>Strings and paths\<close>

text \<open>
  The module is Python. Its strings are modelled as \<^typ>\<open>string\<close>, and the operations of
  \<^verbatim>\<open>str\<close> and \<^verbatim>\<open>os.path\<close> it calls are written out as they compute.
\<close>

type_synonym path = string

definition TAB :: char where
  "TAB = CHR 0x09"

definition NL :: char where
  "NL = CHR 0x0A"

text \<open>\<^verbatim>\<open>s.split(sep)\<close> for a one-character separator: the empty string gives one empty field.\<close>

fun split_on :: "char \<Rightarrow> string \<Rightarrow> string list" where
  "split_on sep [] = [[]]"
| "split_on sep (c # cs) =
     (if c = sep then [] # split_on sep cs
      else (case split_on sep cs of
              [] \<Rightarrow> [[c]]
            | field # fields \<Rightarrow> (c # field) # fields))"

text \<open>\<^verbatim>\<open>s.strip(chars)\<close>: the characters of \<open>chars\<close> are removed from both ends.\<close>

definition strip_chars :: "string \<Rightarrow> string \<Rightarrow> string" where
  "strip_chars chars s =
     rev (dropWhile (\<lambda>c. c \<in> set chars) (rev (dropWhile (\<lambda>c. c \<in> set chars) s)))"

text \<open>
  \<^verbatim>\<open>s.strip()\<close> removes white space; the six ASCII white-space characters are modelled
  (space, tab, line feed, carriage return, vertical tab, form feed).
\<close>

definition whitespace :: string where
  "whitespace = [CHR '' '', CHR 0x09, CHR 0x0A, CHR 0x0D, CHR 0x0B, CHR 0x0C]"

definition strip :: "string \<Rightarrow> string" where
  "strip s = strip_chars whitespace s"

text \<open>\<^verbatim>\<open>sep.join(xs)\<close>.\<close>

fun join :: "string \<Rightarrow> string list \<Rightarrow> string" where
  "join sep [] = []"
| "join sep [x] = x"
| "join sep (x # y # ys) = x @ sep @ join sep (y # ys)"

text \<open>\<^verbatim>\<open>"%s" % n\<close> and \<^verbatim>\<open>"%02d" % n\<close> for the non-negative integers the module formats.\<close>

fun str_nat :: "nat \<Rightarrow> string" where
  "str_nat n =
     (if n < 10 then [''0123456789'' ! n]
      else str_nat (n div 10) @ [''0123456789'' ! (n mod 10)])"

declare str_nat.simps [simp del]

definition fmt_02d :: "nat \<Rightarrow> string" where
  "fmt_02d n = (if n < 10 then ''0'' @ str_nat n else str_nat n)"

fun startswith :: "string \<Rightarrow> string \<Rightarrow> bool" where
  "startswith [] s = True"
| "startswith (p # ps) [] = False"
| "startswith (p # ps) (c # cs) = (p = c \<and> startswith ps cs)"

text \<open>\<^verbatim>\<open>os.path.join(a, b)\<close> and \<^verbatim>\<open>os.path.basename(p)\<close> on POSIX paths.\<close>

definition path_join :: "path \<Rightarrow> path \<Rightarrow> path" where
  "path_join a b =
     (if startswith ''/'' b then b
      else if a = [] \<or> last a = CHR ''/'' then a @ b
      else a @ ''/'' @ b)"

definition basename :: "path \<Rightarrow> string" where
  "basename p = rev (takeWhile (\<lambda>c. c \<noteq> CHR ''/'') (rev p))"

text \<open>
  \<^verbatim>\<open>dict(zip(keys, values))\<close>: \<^verbatim>\<open>zip\<close> stops at the shorter list, and a key that occurs
  twice keeps its last value.
\<close>

definition dict_zip :: "string list \<Rightarrow> string list \<Rightarrow> string \<rightharpoonup> string" where
  "dict_zip ks vs = map_of (rev (zip ks vs))"

section \<open>Classification of TitanCNA calls\<close>

text \<open>
  \<^verbatim>\<open>_get_svtype(call)\<close>, with the source's three membership tests in their order. (A
  leading underscore is not part of an Isabelle name, so the module's private functions
  carry their names without it.)
\<close>

definition get_svtype :: "string \<Rightarrow> string" where
  "get_svtype call =
     (if call \<in> set [''HOMD'', ''DLOH''] then ''DEL''
      else if call \<in> set [''ALOH'', ''GAIN'', ''ASCNA'', ''BCNA'', ''UBCNA''] then ''DUP''
      else if call \<in> set [''NLOH''] then ''LOH''
      else ''CNV'')"

section \<open>Errors\<close>

text \<open>
  Every exception the module can raise is a value: a function that may raise returns
  \<open>error + result\<close>, with \<open>Inl\<close> for the exception. \<open>External\<close> is a failure reported by
  a collaborator, such as a subprocess that exits with a non-zero status.
\<close>

datatype error =
    AssertionError string
  | KeyError string
  | IOError path
  | TypeError
  | ValueError
  | NameError string
  | IndexError
  | ShutilError path
  | External string

section \<open>The file system\<close>

text \<open>
  A file is the list of its lines as Python's file iteration yields them (each with its
  line terminator), with a modification time. The disk is an association list from paths
  to files and a clock; directories are implicit: a directory exists when a file lies
  under it. The world adds two logs to the disk: \<open>cmds\<close>, the command lines the module
  hands to \<^verbatim>\<open>do.run\<close>, and \<open>calls\<close>, a trace of the entries into
  \<^verbatim>\<open>_run_titancna\<close>, \<^verbatim>\<open>_run_select_solution\<close> and \<^verbatim>\<open>_finalize_sv\<close>. The
  trace is kept only to state how often these functions are entered; no function reads it.
\<close>

record file_entry =
  content :: "string list"
  mtime :: nat

record disk =
  files :: "(path \<times> file_entry) list"
  now :: nat

datatype call =
    CellCall nat nat
  | SelectCall "(nat \<times> path) list"
  | FinalizeCall path

record world = disk +
  cmds :: "string list"
  calls :: "call list"

text \<open>\<^verbatim>\<open>open(p)\<close> for reading, and a file written by the module itself at the current time.\<close>

definition read_text :: "'a disk_scheme \<Rightarrow> path \<Rightarrow> string list option" where
  "read_text w p = map_option content (map_of (files w) p)"

definition write_file :: "path \<Rightarrow> string list \<Rightarrow> world \<Rightarrow> world" where
  "write_file p ls w = w\<lparr>files := AList.update p \<lparr>content = ls, mtime = now w\<rparr> (files w)\<rparr>"

text \<open>\<^verbatim>\<open>os.path.exists(p)\<close>: a file, or a directory that holds one.\<close>

definition os_path_exists :: "'a disk_scheme \<Rightarrow> path \<Rightarrow> bool" where
  "os_path_exists w p = list_ex (\<lambda>(q, f). q = p \<or> startswith (p @ ''/'') q) (files w)"

text \<open>\<^verbatim>\<open>os.rename\<close> of a file (the target is replaced), and the removal of a directory tree.\<close>

definition rename_file :: "path \<Rightarrow> path \<Rightarrow> world \<Rightarrow> world" where
  "rename_file src dst w =
     (case map_of (files w) src of
        None \<Rightarrow> w
      | Some f \<Rightarrow> w\<lparr>files := AList.update dst f (AList.delete src (files w))\<rparr>)"

definition remove_tree :: "path \<Rightarrow> world \<Rightarrow> world" where
  "remove_tree dir w =
     w\<lparr>files := filter (\<lambda>(q, f). \<not> (q = dir \<or> startswith (dir @ ''/'') q)) (files w)\<rparr>"

text \<open>
  Modelled from the spec: \<^verbatim>\<open>utils.safe_makedir\<close> is not among the sources. The spec
  has a sweep cell "construct a per-ploidy subdirectory" and leaves directory management to
  a collaborator; with implicit directories only the returned path remains.
\<close>

definition safe_makedir :: "path \<Rightarrow> path" where
  "safe_makedir dname = dname"

text \<open>
  Modelled from the spec: \<^verbatim>\<open>utils.file_exists\<close> is not among the sources. The spec skips a
  step when its output "already exists" at the target path.
\<close>

definition file_exists :: "'a disk_scheme \<Rightarrow> path \<Rightarrow> bool" where
  "file_exists w fname = (map_of (files w) fname \<noteq> None)"

text \<open>
  Modelled from the spec: \<^verbatim>\<open>utils.file_uptodate\<close> is not among the sources. The spec: "output
  is considered valid iff it exists and its modification time is \<open>\<ge>\<close> the input's". An input
  that does not exist has no modification time to compare with, and the output then does not
  count as up to date.
\<close>

definition file_uptodate :: "'a disk_scheme \<Rightarrow> path \<Rightarrow> path \<Rightarrow> bool" where
  "file_uptodate w fname cmp_fname =
     (case map_of (files w) fname of
        None \<Rightarrow> False
      | Some f \<Rightarrow> (case map_of (files w) cmp_fname of
                     None \<Rightarrow> False
                   | Some c \<Rightarrow> mtime c \<le> mtime f))"

section \<open>Samples\<close>

text \<open>
  A sample is a Python dictionary. The record has one field per entry the module reads
  through \<^verbatim>\<open>bcbio.pipeline.datadict\<close> (named as the accessor is), the \<^verbatim>\<open>"config"\<close> entry,
  which the module only passes on, and the \<^verbatim>\<open>"sv"\<close> entry, which is \<open>None\<close> when the key is
  absent. An entry of \<^verbatim>\<open>"sv"\<close> is itself a dictionary, kept as the list of its items in
  insertion order.
\<close>

datatype pyval = Str string | StrList "string list"

type_synonym sv_entry = "(string \<times> pyval) list"

record data =
  get_sample_name :: string
  get_work_dir :: path
  get_num_cores :: nat
  get_normalized_depth :: "path option"
  get_config :: string
  sv :: "sv_entry list option"

record paired =
  tumor_data :: data
  normal_data :: "data option"

record vrn =
  vrn_file :: path
  variantcaller :: string

section \<open>Data frames\<close>

text \<open>
  A pandas data frame is the list of its named columns. A column of integers has the
  dtype \<^verbatim>\<open>int64\<close>: its values are 64-bit words, read as signed integers by \<^term>\<open>sint\<close>,
  and arithmetic on them wraps around. A column of floating point numbers carries each value
  as its text; what an addition makes of it is numpy's business and a parameter of the model
  (\<open>float_add\<close> below). Any other column holds strings.
\<close>

datatype column = IntCol "64 word list" | FloatCol "string list" | StrCol "string list"

type_synonym frame = "(string \<times> column) list"

text \<open>
  The writer class \<^verbatim>\<open>OutWriter\<close> that \<^verbatim>\<open>_titan_het_file\<close> hands to
  \<^verbatim>\<open>bubbletree.prep_vrn_file\<close>: a header and a function from a variant record and its
  statistics to a row of cells.
\<close>

datatype cell = IntCell int | StrCell string

record variant_rec =
  rec_chrom :: string
  rec_pos :: int
  rec_ref :: string
  rec_alts :: "string list"
  rec_qual :: string

record tumor_stats =
  tumor_depth :: int
  tumor_alt :: int

record out_writer =
  write_header :: "string list"
  write_row :: "variant_rec \<Rightarrow> tumor_stats \<Rightarrow> error + cell list"

section \<open>Collaborators\<close>

text \<open>
  The functions of other modules and libraries that the module calls are parameters of the
  model, collected in one record: \<^verbatim>\<open>vcfutils.get_paired\<close>, \<^verbatim>\<open>heterogeneity.get_variants\<close>,
  \<^verbatim>\<open>bubbletree.prep_vrn_file\<close>, \<^verbatim>\<open>vcfutils.bgzip_and_index\<close>, the effect of a command line
  run as a subprocess, \<^verbatim>\<open>utils.splitext_plus\<close>, \<^verbatim>\<open>utils.get_R_exports\<close>, the paths that
  \<^verbatim>\<open>tx_tmpdir\<close> and \<^verbatim>\<open>file_transaction\<close> choose, pandas' reader (the chunks it
  yields) and writer, and numpy's addition of an integer to a floating point number. A collaborator that touches the file system works on the disk and may
  fail; it has no access to the two logs.
\<close>

record env =
  get_paired :: "data list \<Rightarrow> paired option"
  get_variants :: "data \<Rightarrow> vrn list"
  prep_vrn_file ::
    "path \<Rightarrow> string \<Rightarrow> path \<Rightarrow> paired \<Rightarrow> out_writer \<Rightarrow> disk \<Rightarrow> error + path \<times> disk"
  bgzip_and_index :: "path \<Rightarrow> string \<Rightarrow> disk \<Rightarrow> error + path \<times> disk"
  subprocess :: "string \<Rightarrow> disk \<Rightarrow> error + disk"
  splitext_plus :: "path \<Rightarrow> path \<times> string"
  get_R_exports :: string
  tx_tmpdir :: "data \<Rightarrow> path"
  tx_file :: "data \<Rightarrow> path \<Rightarrow> path"
  read_table :: "string list \<Rightarrow> error + frame list"
  to_csv :: "frame \<Rightarrow> string list"
  float_add :: "string \<Rightarrow> int \<Rightarrow> string"

text \<open>A call of a collaborator from the module: the disk is handed over and taken back.\<close>

definition external :: "(disk \<Rightarrow> error + 'a \<times> disk) \<Rightarrow> world \<Rightarrow> error + 'a \<times> world" where
  "external f w =
     (case f (disk.truncate w) of
        Inl e \<Rightarrow> Inl e
      | Inr (x, d) \<Rightarrow> Inr (x, w\<lparr>files := files d, now := now d\<rparr>))"

text \<open>
  \<^verbatim>\<open>do.run(cmd, description)\<close>: the command line is logged and the subprocess runs; its
  failure is raised.
\<close>

definition do_run :: "env \<Rightarrow> string \<Rightarrow> world \<Rightarrow> error + world" where
  "do_run env cmd w =
     (case subprocess env cmd (disk.truncate w) of
        Inl e \<Rightarrow> Inl e
      | Inr d \<Rightarrow> Inr (w\<lparr>files := files d, now := now d, cmds := cmds w @ [cmd]\<rparr>))"

text \<open>
  Modelled from the spec: \<^verbatim>\<open>file_transaction\<close> is not among the sources. The spec: an output
  is produced "via an atomic write (temp file + rename on success, discarded on
  failure/cancellation, never leaving a partially-written file visible)". The body of the
  \<^verbatim>\<open>with\<close> block receives the temporary path; when it returns, the temporary file, if
  the body made one, is renamed to the output.
\<close>

definition file_transaction ::
  "env \<Rightarrow> data \<Rightarrow> path \<Rightarrow> (path \<Rightarrow> world \<Rightarrow> error + world) \<Rightarrow> world \<Rightarrow> error + world" where
  "file_transaction env data out_file body w =
     (case body (tx_file env data out_file) w of
        Inl e \<Rightarrow> Inl e
      | Inr w1 \<Rightarrow> Inr (rename_file (tx_file env data out_file) out_file w1))"

section \<open>The module\<close>

text \<open>The functions of \<^verbatim>\<open>bcbio/structural/titancna.py\<close>, in the order of their use.\<close>

definition sv_workdir :: "data \<Rightarrow> path" where
  "sv_workdir data =
     safe_makedir (path_join (path_join (path_join (get_work_dir data) ''structural'')
                                (get_sample_name data)) ''titancna'')"

subsection \<open>Input files\<close>

text \<open>
  The three statements of the loop body of \<^verbatim>\<open>_titan_cn_file\<close>:
  \<^verbatim>\<open>chunk[[...]]\<close> selects columns by name (a missing name raises \<^verbatim>\<open>KeyError\<close>),
  the assignment to \<^verbatim>\<open>chunk.columns\<close> renames them by position, and
  \<^verbatim>\<open>chunk['start'] += 1\<close> adds to every value of one column: with wrap-around in an
  \<^verbatim>\<open>int64\<close> column, as numpy adds in a floating point column, and with a
  \<^verbatim>\<open>TypeError\<close> in a column of strings that has a value.
\<close>

fun select_columns :: "string list \<Rightarrow> frame \<Rightarrow> error + frame" where
  "select_columns [] fr = Inr []"
| "select_columns (n # ns) fr =
     (case map_of fr n of
        None \<Rightarrow> Inl (KeyError n)
      | Some c \<Rightarrow> (case select_columns ns fr of
                     Inl e \<Rightarrow> Inl e
                   | Inr cs \<Rightarrow> Inr ((n, c) # cs)))"

definition set_columns :: "string list \<Rightarrow> frame \<Rightarrow> error + frame" where
  "set_columns names fr =
     (if length names = length fr then Inr (zip names (map snd fr)) else Inl ValueError)"

definition iadd_column :: "env \<Rightarrow> string \<Rightarrow> int \<Rightarrow> frame \<Rightarrow> error + frame" where
  "iadd_column env name k fr =
     (case map_of fr name of
        None \<Rightarrow> Inl (KeyError name)
      | Some (IntCol xs) \<Rightarrow>
          Inr (AList.update name (IntCol (map (\<lambda>x. x + word_of_int k) xs)) fr)
      | Some (FloatCol xs) \<Rightarrow>
          Inr (AList.update name (FloatCol (map (\<lambda>x. float_add env x k) xs)) fr)
      | Some (StrCol xs) \<Rightarrow> (if xs = [] then Inr fr else Inl TypeError))"

definition titan_cn_chunk :: "env \<Rightarrow> frame \<Rightarrow> error + frame" where
  "titan_cn_chunk env chunk =
     (case select_columns [''chromosome'', ''start'', ''end'', ''log2''] chunk of
        Inl e \<Rightarrow> Inl e
      | Inr c1 \<Rightarrow> (case set_columns [''chrom'', ''start'', ''end'', ''logR''] c1 of
                      Inl e \<Rightarrow> Inl e
                    | Inr c2 \<Rightarrow> iadd_column env ''start'' 1 c2))"

text \<open>
  \<^verbatim>\<open>_titan_cn_file\<close>. The loop appends each converted chunk to the open file; an
  exception in any chunk leaves the transaction without an output. With
  \<^verbatim>\<open>cnr_file = None\<close> (no normalized depth for the sample) \<^verbatim>\<open>os.path.basename\<close> raises.
\<close>

fun write_chunks :: "env \<Rightarrow> frame list \<Rightarrow> string list \<Rightarrow> error + string list" where
  "write_chunks env [] written = Inr written"
| "write_chunks env (chunk # rest) written =
     (case titan_cn_chunk env chunk of
        Inl e \<Rightarrow> Inl e
      | Inr c \<Rightarrow> write_chunks env rest (written @ to_csv env c))"

definition titan_cn_file ::
  "env \<Rightarrow> path option \<Rightarrow> path \<Rightarrow> data \<Rightarrow> world \<Rightarrow> error + path \<times> world" where
  "titan_cn_file env cnr_file work_dir data w =
     (case cnr_file of
        None \<Rightarrow> Inl TypeError
      | Some cnr \<Rightarrow>
          (let out_file = path_join work_dir (fst (splitext_plus env (basename cnr)) @ ''.cn'') in
           if \<not> file_uptodate w out_file cnr then
             (case file_transaction env data out_file
                     (\<lambda>tx_out_file w0.
                        case read_text w0 cnr of
                          None \<Rightarrow> Inl (IOError cnr)
                        | Some ls \<Rightarrow>
                            (case read_table env ls of
                               Inl e \<Rightarrow> Inl e
                             | Inr iterator \<Rightarrow>
                                 (case write_chunks env iterator [] of
                                    Inl e \<Rightarrow> Inl e
                                  | Inr written \<Rightarrow> Inr (write_file tx_out_file written w0)))) w of
                Inl e \<Rightarrow> Inl e
              | Inr w1 \<Rightarrow> Inr (out_file, w1))
           else Inr (out_file, w)))"

text \<open>\<^verbatim>\<open>_titan_het_file\<close> and its writer class.\<close>

definition OutWriter :: out_writer where
  "OutWriter =
     \<lparr>write_header = [''Chr'', ''Position'', ''Ref'', ''RefCount'', ''Nref'', ''NrefCount'', ''NormQuality''],
      write_row = (\<lambda>r stats.
         case rec_alts r of
           [] \<Rightarrow> Inl IndexError
         | a # _ \<Rightarrow> Inr [StrCell (rec_chrom r), IntCell (rec_pos r), StrCell (rec_ref r),
                          IntCell (tumor_depth stats - tumor_alt stats), StrCell a,
                          IntCell (tumor_alt stats), StrCell (rec_qual r)])\<rparr>"

definition titan_het_file ::
  "env \<Rightarrow> vrn list \<Rightarrow> path \<Rightarrow> paired \<Rightarrow> world \<Rightarrow> error + path \<times> world" where
  "titan_het_file env vrn_files work_dir pair w =
     (case vrn_files of
        [] \<Rightarrow> Inl (AssertionError ''Did not find compatible variant calling files for TitanCNA inputs'')
      | v # _ \<Rightarrow>
          external (prep_vrn_file env (vrn_file v) (variantcaller v) work_dir pair OutWriter) w)"

subsection \<open>Gating\<close>

text \<open>
  \<^verbatim>\<open>_should_run\<close>: the loop over \<^verbatim>\<open>enumerate(in_handle)\<close>, with \<open>i\<close> the index of the
  line at the head of the list.
\<close>

fun should_run_loop :: "nat \<Rightarrow> string list \<Rightarrow> bool" where
  "should_run_loop i [] = False"
| "should_run_loop i (line # rest) = (if 1 < i then True else should_run_loop (Suc i) rest)"

definition should_run :: "path \<Rightarrow> world \<Rightarrow> error + bool" where
  "should_run het_file w =
     (case read_text w het_file of
        None \<Rightarrow> Inl (IOError het_file)
      | Some ls \<Rightarrow> Inr (should_run_loop 0 ls))"

subsection \<open>The sweep\<close>

text \<open>
  \<^verbatim>\<open>glob.glob(pre + "*")\<close> followed by \<^verbatim>\<open>shutil.move(fname, dst_dir)\<close> for each match:
  a match is an entry of the temporary directory whose path starts with \<open>pre\<close>; it moves,
  with everything under it, into \<open>dst_dir\<close>, and \<^verbatim>\<open>shutil.move\<close> raises when an entry of
  that name is already there. \<open>shutil_move\<close> is the move of one file to a file path.
\<close>

definition move_globbed :: "path \<Rightarrow> path \<Rightarrow> world \<Rightarrow> error + world" where
  "move_globbed pre dst_dir w =
     (let entry = (\<lambda>q. pre @ takeWhile (\<lambda>c. c \<noteq> CHR ''/'') (drop (length pre) q));
          dest = (\<lambda>q. path_join dst_dir (basename (entry q)))
      in case find (\<lambda>(q, f). startswith pre q \<and> os_path_exists w (dest q)) (files w) of
           Some (q, f) \<Rightarrow> Inl (ShutilError (dest q))
         | None \<Rightarrow>
             Inr (w\<lparr>files := map (\<lambda>(q, f). if startswith pre q
                                           then (dest q @ drop (length (entry q)) q, f)
                                           else (q, f)) (files w)\<rparr>))"

definition shutil_move :: "path \<Rightarrow> path \<Rightarrow> world \<Rightarrow> error + world" where
  "shutil_move src dst w =
     (case map_of (files w) src of
        None \<Rightarrow> Inl (IOError src)
      | Some f \<Rightarrow> Inr (rename_file src dst w))"

text \<open>
  \<^verbatim>\<open>_run_titancna\<close>. The temporary directory of \<^verbatim>\<open>tx_tmpdir\<close> is removed when its block
  is left.
\<close>

definition titancna_cmd ::
  "string \<Rightarrow> string \<Rightarrow> path \<Rightarrow> path \<Rightarrow> nat \<Rightarrow> nat \<Rightarrow> nat \<Rightarrow> path \<Rightarrow> string" where
  "titancna_cmd export_cmd sample het_file cn_file num_clusters ploidy cores tmp_dir =
     export_cmd @ '' && titanCNA.R --id '' @ sample @ '' --hetFile '' @ het_file @
     '' --cnFile '' @ cn_file @ '' --numClusters '' @ str_nat num_clusters @
     '' --ploidy '' @ str_nat ploidy @ '' --numCores '' @ str_nat cores @
     '' --outDir '' @ tmp_dir"

definition run_titancna ::
  "env \<Rightarrow> path \<Rightarrow> path \<Rightarrow> nat \<Rightarrow> nat \<Rightarrow> path \<Rightarrow> data \<Rightarrow> world \<Rightarrow> error + path \<times> world" where
  "run_titancna env cn_file het_file ploidy num_clusters work_dir data w0 =
     (let w = w0\<lparr>calls := calls w0 @ [CellCall ploidy num_clusters]\<rparr>;
          sample = get_sample_name data;
          cores = get_num_cores data;
          export_cmd = get_R_exports env;
          ploidy_dir = safe_makedir (path_join work_dir (''run_ploidy'' @ str_nat ploidy));
          cluster_dir = sample @ ''_cluster'' @ fmt_02d num_clusters;
          out_dir = path_join ploidy_dir cluster_dir
      in if \<not> file_uptodate w (out_dir @ ''.titan.txt'') cn_file then
           (let tmp_dir = tx_tmpdir env data in
            case do_run env (titancna_cmd export_cmd sample het_file cn_file num_clusters
                               ploidy cores tmp_dir) w of
              Inl e \<Rightarrow> Inl e
            | Inr w1 \<Rightarrow>
                (case move_globbed (path_join tmp_dir cluster_dir) ploidy_dir w1 of
                   Inl e \<Rightarrow> Inl e
                 | Inr w2 \<Rightarrow>
                     (case shutil_move (path_join tmp_dir ''Rplots.pdf'')
                             (path_join ploidy_dir (cluster_dir @ ''.Rplots.pdf'')) w2 of
                        Inl e \<Rightarrow> Inl e
                      | Inr w3 \<Rightarrow> Inr (ploidy_dir, remove_tree tmp_dir w3))))
         else Inr (ploidy_dir, w))"

text \<open>
  The two nested loops of \<^verbatim>\<open>run\<close>, over the call in their body: \<open>cell ploidy num_clusters\<close>
  is \<^verbatim>\<open>_run_titancna(cn_file, het_file, ploidy, num_clusters, work_dir, paired.tumor_data)\<close>,
  written \<open>titancna_cell\<close> where \<^verbatim>\<open>run\<close> passes it. \<open>out_dir\<close> is the Python variable of that
  name: unbound before the first cell, then the value the last call returned.
\<close>

abbreviation titancna_cell ::
  "env \<Rightarrow> path \<Rightarrow> path \<Rightarrow> path \<Rightarrow> data \<Rightarrow> nat \<Rightarrow> nat \<Rightarrow> world \<Rightarrow> error + path \<times> world" where
  "titancna_cell env cn_file het_file work_dir data \<equiv>
     (\<lambda>ploidy num_clusters. run_titancna env cn_file het_file ploidy num_clusters work_dir data)"

fun cluster_loop ::
  "(nat \<Rightarrow> nat \<Rightarrow> world \<Rightarrow> error + path \<times> world) \<Rightarrow> nat \<Rightarrow> nat list \<Rightarrow> path option \<Rightarrow> world
     \<Rightarrow> error + path option \<times> world" where
  "cluster_loop cell ploidy [] out_dir w = Inr (out_dir, w)"
| "cluster_loop cell ploidy (num_clusters # rest) out_dir w =
     (case cell ploidy num_clusters w of
        Inl e \<Rightarrow> Inl e
      | Inr (d, w1) \<Rightarrow> cluster_loop cell ploidy rest (Some d) w1)"

fun ploidy_loop ::
  "(nat \<Rightarrow> nat \<Rightarrow> world \<Rightarrow> error + path \<times> world) \<Rightarrow> nat list \<Rightarrow> (nat \<times> path) list
     \<Rightarrow> path option \<Rightarrow> world \<Rightarrow> error + (nat \<times> path) list \<times> world" where
  "ploidy_loop cell [] ploidy_outdirs out_dir w = Inr (ploidy_outdirs, w)"
| "ploidy_loop cell (ploidy # rest) ploidy_outdirs out_dir w =
     (case cluster_loop cell ploidy [1, 2, 3] out_dir w of
        Inl e \<Rightarrow> Inl e
      | Inr (None, w1) \<Rightarrow> Inl (NameError ''out_dir'')
      | Inr (Some d, w1) \<Rightarrow>
          ploidy_loop cell rest (ploidy_outdirs @ [(ploidy, d)]) (Some d) w1)"

subsection \<open>Selection\<close>

text \<open>\<^verbatim>\<open>_run_select_solution\<close>.\<close>

definition ploidy_inputs :: "(nat \<times> path) list \<Rightarrow> string" where
  "ploidy_inputs ploidy_outdirs =
     join '' '' (map (\<lambda>(p, d). ''--ploidyRun'' @ str_nat p @ ''='' @ d) ploidy_outdirs)"

definition run_select_solution ::
  "env \<Rightarrow> (nat \<times> path) list \<Rightarrow> path \<Rightarrow> data \<Rightarrow> world \<Rightarrow> error + path \<times> world" where
  "run_select_solution env ploidy_outdirs work_dir data w0 =
     (let w = w0\<lparr>calls := calls w0 @ [SelectCall ploidy_outdirs]\<rparr>;
          out_file = path_join work_dir ''optimalClusters.txt''
      in if \<not> file_exists w out_file then
           (case file_transaction env data out_file
                   (\<lambda>tx_out_file.
                      do_run env (''titanCNA_selectSolution.R '' @ ploidy_inputs ploidy_outdirs @
                                  '' --outFile='' @ tx_out_file)) w of
              Inl e \<Rightarrow> Inl e
            | Inr w1 \<Rightarrow> Inr (out_file, w1))
         else Inr (out_file, w))"

subsection \<open>VCF conversion\<close>

text \<open>
  \<^verbatim>\<open>_vcf_header\<close>, line by line, and \<^verbatim>\<open>_segs_to_vcf\<close>. \<open>seg_fields\<close> is the body of the
  loop over the segment lines up to the list \<^verbatim>\<open>out\<close>, with the dictionary lookups in the
  order Python evaluates them; \<open>vcf_text\<close> is everything written to the output.
\<close>

definition vcf_header :: "string list" where
  "vcf_header = map (\<lambda>l. l @ [NL])
     [''##fileformat=VCFv4.2'',
      ''##source=TitanCNA'',
      ''##INFO=<ID=END,Number=1,Type=Integer,Description=\"End position of the variant described in this record\">'',
      ''##INFO=<ID=SVTYPE,Number=1,Type=String,Description=\"Type of structural variant\">'',
      ''##INFO=<ID=FOLD_CHANGE_LOG,Number=1,Type=Float,Description=\"Log fold change\">'',
      ''##INFO=<ID=CN,Number=1,Type=Integer,Description=\"Copy Number: Overall\">'',
      ''##INFO=<ID=MajorCN,Number=1,Type=Integer,Description=\"Copy Number: Major allele\">'',
      ''##INFO=<ID=MinorCN,Number=1,Type=Integer,Description=\"Copy Number: Minor allele\">'',
      ''##ALT=<ID=DEL,Description=\"Deletion\">'',
      ''##ALT=<ID=DUP,Description=\"Duplication\">'',
      ''##ALT=<ID=LOS,Description=\"Loss of heterozygosity\">'',
      ''##ALT=<ID=CNV,Description=\"Copy number variable region\">'',
      ''##FORMAT=<ID=GT,Number=1,Type=String,Description=\"Genotype\">'']"

definition seg_fields :: "string list \<Rightarrow> string \<Rightarrow> error + string list" where
  "seg_fields header line =
     (let cur = dict_zip header (split_on TAB (strip line)) in
      case cur ''TITAN_call'' of
        None \<Rightarrow> Inl (KeyError ''TITAN_call'')
      | Some titan_call \<Rightarrow>
      (let svtype = get_svtype titan_call in
       case cur ''End_Position.bp.'' of
         None \<Rightarrow> Inl (KeyError ''End_Position.bp.'')
       | Some end_position \<Rightarrow>
       (case cur ''Copy_Number'' of
          None \<Rightarrow> Inl (KeyError ''Copy_Number'')
        | Some copy_number \<Rightarrow>
        (case cur ''MajorCN'' of
           None \<Rightarrow> Inl (KeyError ''MajorCN'')
         | Some major_cn \<Rightarrow>
         (case cur ''MinorCN'' of
            None \<Rightarrow> Inl (KeyError ''MinorCN'')
          | Some minor_cn \<Rightarrow>
          (case cur ''Median_logR'' of
             None \<Rightarrow> Inl (KeyError ''Median_logR'')
           | Some median_logr \<Rightarrow>
           (let info = [''SVTYPE='' @ svtype, ''END='' @ end_position, ''CN='' @ copy_number,
                        ''MajorCN='' @ major_cn, ''MinorCN='' @ minor_cn,
                        ''FOLD_CHANGE_LOG='' @ median_logr] in
            case cur ''Chromosome'' of
              None \<Rightarrow> Inl (KeyError ''Chromosome'')
            | Some chromosome \<Rightarrow>
            (case cur ''Start_Position.bp.'' of
               None \<Rightarrow> Inl (KeyError ''Start_Position.bp.'')
             | Some start_position \<Rightarrow>
                 Inr [chromosome, start_position, ''.'', ''N'', ''<'' @ svtype @ ''>'', ''.'',
                      ''.'', join '';'' info, ''GT'', ''0/1'']))))))))"

fun seg_rows :: "string list \<Rightarrow> string list \<Rightarrow> error + string list list" where
  "seg_rows header [] = Inr []"
| "seg_rows header (line # rest) =
     (case seg_fields header line of
        Inl e \<Rightarrow> Inl e
      | Inr out \<Rightarrow> (case seg_rows header rest of
                       Inl e \<Rightarrow> Inl e
                     | Inr outs \<Rightarrow> Inr (out # outs)))"

definition vcf_text :: "string \<Rightarrow> string list \<Rightarrow> error + string list" where
  "vcf_text sample_name in_lines =
     (let header = split_on TAB (strip (case in_lines of [] \<Rightarrow> [] | l # _ \<Rightarrow> l)) in
      case seg_rows header (tl in_lines) of
        Inl e \<Rightarrow> Inl e
      | Inr outs \<Rightarrow>
          Inr (vcf_header @
               [join [TAB] [''#CHROM'', ''POS'', ''ID'', ''REF'', ''ALT'', ''QUAL'', ''FILTER'',
                            ''INFO'', ''FORMAT'', sample_name] @ [NL]] @
               map (\<lambda>out. join [TAB] out @ [NL]) outs))"

definition segs_to_vcf :: "env \<Rightarrow> path \<Rightarrow> data \<Rightarrow> world \<Rightarrow> error + path \<times> world" where
  "segs_to_vcf env in_file data w =
     (let out_file = fst (splitext_plus env in_file) @ ''.vcf'' in
      if \<not> file_exists w (out_file @ ''.gz'') \<and> \<not> file_exists w out_file then
        (case file_transaction env data out_file
                (\<lambda>tx_out_file w0.
                   case read_text w0 in_file of
                     None \<Rightarrow> Inl (IOError in_file)
                   | Some in_lines \<Rightarrow>
                       (case vcf_text (get_sample_name data) in_lines of
                          Inl e \<Rightarrow> Inl e
                        | Inr out_lines \<Rightarrow> Inr (write_file tx_out_file out_lines w0))) w of
           Inl e \<Rightarrow> Inl e
         | Inr w1 \<Rightarrow> external (bgzip_and_index env out_file (get_config data)) w1)
      else external (bgzip_and_index env out_file (get_config data)) w)"

text \<open>
  The identifiers that the \<^verbatim>\<open>##ALT\<close> lines of a header declare: the text between
  \<^verbatim>\<open>##ALT=<ID=\<close> and the next comma. The module has no such function; it serves to state
  what the preamble declares.
\<close>

definition alt_ids :: "string list \<Rightarrow> string list" where
  "alt_ids ls =
     map (\<lambda>l. takeWhile (\<lambda>c. c \<noteq> CHR '','') (drop 10 l))
       (filter (startswith ''##ALT=<ID='') ls)"

subsection \<open>The solution summary\<close>

text \<open>
  \<^verbatim>\<open>_finalize_sv\<close>. \<^verbatim>\<open>readline\<close> gives the empty string past the end of the file.
\<close>

definition readline :: "nat \<Rightarrow> string list \<Rightarrow> string" where
  "readline i ls = (if i < length ls then ls ! i else [])"

definition plot_candidates :: "path \<Rightarrow> path list" where
  "plot_candidates p =
     map (\<lambda>ext. p @ ext)
       [''.Rplots.pdf'', ''/'' @ basename p @ ''_CF.pdf'', ''/'' @ basename p @ ''_CNA.pdf'',
        ''/'' @ basename p @ ''_LOH.pdf'']"

definition finalize_sv :: "env \<Rightarrow> path \<Rightarrow> data \<Rightarrow> world \<Rightarrow> error + sv_entry \<times> world" where
  "finalize_sv env solution_file data w0 =
     (let w = w0\<lparr>calls := calls w0 @ [FinalizeCall solution_file]\<rparr> in
      case read_text w solution_file of
        None \<Rightarrow> Inl (IOError solution_file)
      | Some ls \<Rightarrow>
      (let solution = dict_zip (split_on TAB (strip_chars [CHR 0x0D, CHR 0x0A] (readline 0 ls)))
                               (split_on TAB (strip_chars [CHR 0x0D, CHR 0x0A] (readline 1 ls))) in
       case solution ''purity'' of
         None \<Rightarrow> Inl (KeyError ''purity'')
       | Some purity \<Rightarrow>
       (case solution ''ploidy'' of
          None \<Rightarrow> Inl (KeyError ''ploidy'')
        | Some ploidy \<Rightarrow>
        (case solution ''cellPrev'' of
           None \<Rightarrow> Inl (KeyError ''cellPrev'')
         | Some cell_prev \<Rightarrow>
         (case solution ''path'' of
            None \<Rightarrow> Inl (KeyError ''path'')
          | Some spath \<Rightarrow>
          (case segs_to_vcf env (spath @ ''.segs.txt'') data w of
             Inl e \<Rightarrow> Inl e
           | Inr (vrn, w1) \<Rightarrow>
               Inr ([(''variantcaller'', Str ''titancna''),
                     (''purity'', Str purity),
                     (''ploidy'', Str ploidy),
                     (''cellular_prevalence'', StrList (map strip (split_on (CHR '','') cell_prev))),
                     (''plot'', StrList (filter (os_path_exists w) (plot_candidates spath))),
                     (''subclones'', Str (spath @ ''.segs.txt'')),
                     (''vrn_file'', Str vrn)], w1)))))))"

subsection \<open>The entry point\<close>

text \<open>
  \<^verbatim>\<open>run\<close>. \<open>full_pipeline\<close> is the branch taken when \<^verbatim>\<open>_should_run\<close> holds, together
  with the statements after the conditional, which only that branch reaches.
\<close>

definition full_pipeline ::
  "env \<Rightarrow> paired \<Rightarrow> path \<Rightarrow> path \<Rightarrow> path \<Rightarrow> world \<Rightarrow> error + data list \<times> world" where
  "full_pipeline env pair cn_file het_file work_dir w =
     (case ploidy_loop (titancna_cell env cn_file het_file work_dir (tumor_data pair)) [2, 3, 4] [] None w of
        Inl e \<Rightarrow> Inl e
      | Inr (ploidy_outdirs, w1) \<Rightarrow>
      (case run_select_solution env ploidy_outdirs work_dir (tumor_data pair) w1 of
         Inl e \<Rightarrow> Inl e
       | Inr (solution_file, w2) \<Rightarrow>
       (let out = (case normal_data pair of None \<Rightarrow> [] | Some n \<Rightarrow> [n]);
            old_sv = (case sv (tumor_data pair) of None \<Rightarrow> [] | Some entries \<Rightarrow> entries);
            tumor = (tumor_data pair)\<lparr>sv := Some old_sv\<rparr>
        in case finalize_sv env solution_file tumor w2 of
             Inl e \<Rightarrow> Inl e
           | Inr (entry, w3) \<Rightarrow> Inr (out @ [tumor\<lparr>sv := Some (old_sv @ [entry])\<rparr>], w3))))"

definition run :: "env \<Rightarrow> data list \<Rightarrow> world \<Rightarrow> error + data list \<times> world" where
  "run env items w =
     (case get_paired env items of
        None \<Rightarrow> Inr (items, w)
      | Some pair \<Rightarrow>
      (let work_dir = sv_workdir (tumor_data pair) in
       case titan_cn_file env (get_normalized_depth (tumor_data pair)) work_dir (tumor_data pair) w of
         Inl e \<Rightarrow> Inl e
       | Inr (cn_file, w1) \<Rightarrow>
       (case titan_het_file env (get_variants env (tumor_data pair)) work_dir pair w1 of
          Inl e \<Rightarrow> Inl e
        | Inr (het_file, w2) \<Rightarrow>
        (case should_run het_file w2 of
           Inl e \<Rightarrow> Inl e
         | Inr has_hets \<Rightarrow>
             if has_hets then full_pipeline env pair cn_file het_file work_dir w2
             else Inr (items, w2)))))"

section \<open>A test environment\<close>

text \<open>
  Concrete collaborators and a concrete world, on which the theorems below are evaluated:
  a tumor sample S1 with a normal N1; a solver that leaves its plot, and for two clusters at
  ploidy 2 also a segment table and the completion file, in the temporary directory; and a
  selector that reports that solution.
\<close>

fun contains :: "string \<Rightarrow> string \<Rightarrow> bool" where
  "contains pat [] = (pat = [])"
| "contains pat (c # cs) = (startswith pat (c # cs) \<or> contains pat cs)"

definition demo_segs :: "string list" where
  "demo_segs =
     [join [TAB] [''Sample'', ''Chromosome'', ''Start_Position.bp.'', ''End_Position.bp.'',
                  ''Median_logR'', ''TITAN_call'', ''Copy_Number'', ''MinorCN'', ''MajorCN''] @ [NL],
      join [TAB] [''S1'', ''1'', ''1000'', ''2000'', ''-0.5'', ''DLOH'', ''1'', ''0'', ''1''] @ [NL],
      join [TAB] [''S1'', ''2'', ''500'', ''900'', ''0.0'', ''NLOH'', ''2'', ''0'', ''2''] @ [NL],
      join [TAB] [''S1'', ''3'', ''10'', ''90'', ''0.1'', ''HET'', ''2'', ''1'', ''1''] @ [NL]]"

definition demo_solution :: "string list" where
  "demo_solution =
     [join [TAB] [''purity'', ''ploidy'', ''cellPrev'', ''path''] @ [NL],
      join [TAB] [''0.4'', ''2.1'', ''0.3, 0.7'', ''/w/structural/S1/titancna/run_ploidy2/S1_cluster02''] @ [NL]]"

definition demo_put :: "path \<Rightarrow> string list \<Rightarrow> disk \<Rightarrow> disk" where
  "demo_put p ls d = d\<lparr>files := AList.update p \<lparr>content = ls, mtime = now d\<rparr> (files d)\<rparr>"

definition demo_frame :: frame where
  "demo_frame =
     [(''chromosome'', StrCol [''chr1'']), (''start'', IntCol [100]), (''end'', IntCol [200]),
      (''gene'', StrCol [''TP53'']), (''log2'', FloatCol [''-0.5''])]"

fun demo_cell :: "column \<Rightarrow> nat \<Rightarrow> string" where
  "demo_cell (IntCol xs) i = str_nat (nat (sint (xs ! i)))"
| "demo_cell (FloatCol xs) i = xs ! i"
| "demo_cell (StrCol xs) i = xs ! i"

fun demo_rows :: "column \<Rightarrow> nat" where
  "demo_rows (IntCol xs) = length xs"
| "demo_rows (FloatCol xs) = length xs"
| "demo_rows (StrCol xs) = length xs"

definition demo_to_csv :: "frame \<Rightarrow> string list" where
  "demo_to_csv fr =
     (join [TAB] (map fst fr) @ [NL]) #
     map (\<lambda>i. join [TAB] (map (\<lambda>(n, c). demo_cell c i) fr) @ [NL])
       [0 ..< (case fr of [] \<Rightarrow> 0 | (n, c) # _ \<Rightarrow> demo_rows c)]"

definition demo_env :: env where
  "demo_env =
     \<lparr>get_paired = (\<lambda>items. case items of
                        [t] \<Rightarrow> Some \<lparr>tumor_data = t, normal_data = None\<rparr>
                      | [t, n] \<Rightarrow> Some \<lparr>tumor_data = t, normal_data = Some n\<rparr>
                      | _ \<Rightarrow> None),
      get_variants = (\<lambda>d. [\<lparr>vrn_file = ''/in/t.vcf'', variantcaller = ''vardict''\<rparr>]),
      prep_vrn_file = (\<lambda>vf vc wd pair writer d.
         case map_of (files d) vf of
           None \<Rightarrow> Inl (External ''no variants'')
         | Some f \<Rightarrow> Inr (path_join wd ''hets.txt'',
                          demo_put (path_join wd ''hets.txt'')
                            ((join [TAB] (write_header writer) @ [NL]) # content f) d)),
      bgzip_and_index = (\<lambda>out_file cfg d.
         case map_of (files d) out_file of
           None \<Rightarrow> Inr (out_file @ ''.gz'', d)
         | Some f \<Rightarrow> Inr (out_file @ ''.gz'',
                          d\<lparr>files := AList.update (out_file @ ''.gz'') f
                                       (AList.delete out_file (files d))\<rparr>)),
      subprocess = (\<lambda>cmd d.
         if startswith ''titanCNA_selectSolution.R'' cmd
         then Inr (demo_put ''/w/structural/S1/titancna/optimalClusters.txt.tx'' demo_solution
                     (d\<lparr>now := Suc (now d)\<rparr>))
         else Inr ((if contains ''--numClusters 2 --ploidy 2'' cmd
                    then demo_put ''/tmp/tx/S1_cluster02.titan.txt'' [''titan'']
                           \<circ> demo_put ''/tmp/tx/S1_cluster02.segs.txt'' demo_segs
                    else (\<lambda>x. x))
                     (demo_put ''/tmp/tx/Rplots.pdf'' [''plot''] (d\<lparr>now := Suc (now d)\<rparr>)))),
      splitext_plus = (\<lambda>p. (rev (tl (dropWhile (\<lambda>c. c \<noteq> CHR ''.'') (rev p))),
                            CHR ''.'' # rev (takeWhile (\<lambda>c. c \<noteq> CHR ''.'') (rev p)))),
      get_R_exports = ''export R_LIBS_USER=/r'',
      tx_tmpdir = (\<lambda>d. ''/tmp/tx''),
      tx_file = (\<lambda>d out_file. out_file @ ''.tx''),
      read_table = (\<lambda>ls. Inr [demo_frame]),
      to_csv = demo_to_csv,
      float_add = (\<lambda>x k. x @ ''+'' @ str_nat (nat k))\<rparr>"

definition demo_tumor :: data where
  "demo_tumor =
     \<lparr>get_sample_name = ''S1'', get_work_dir = ''/w'', get_num_cores = 4,
      get_normalized_depth = Some ''/in/t.cnr'', get_config = ''cfg'', sv = None\<rparr>"

definition demo_normal :: data where
  "demo_normal =
     \<lparr>get_sample_name = ''N1'', get_work_dir = ''/w'', get_num_cores = 4,
      get_normalized_depth = None, get_config = ''cfg'', sv = None\<rparr>"

definition demo_world :: "string list \<Rightarrow> world" where
  "demo_world hets =
     \<lparr>files = [(''/in/t.cnr'', \<lparr>content = [''cnr''], mtime = 1\<rparr>),
               (''/in/t.vcf'', \<lparr>content = hets, mtime = 1\<rparr>)],
      now = 2, cmds = [], calls = []\<rparr>"

definition demo_disk :: "(path \<times> file_entry) list \<Rightarrow> world" where
  "demo_disk fs = \<lparr>files = fs, now = 10, cmds = [], calls = []\<rparr>"

definition demo_pair :: paired where
  "demo_pair = \<lparr>tumor_data = demo_tumor, normal_data = Some demo_normal\<rparr>"

definition demo_summary_world :: world where
  "demo_summary_world =
     demo_disk
       [(''/sol.txt'',
         \<lparr>content = [''purity'' @ [TAB] @ ''ploidy'' @ [TAB] @ ''cellPrev'' @ [TAB] @ ''path'' @ [NL],
                     ''0.4'' @ [TAB] @ ''2.1'' @ [TAB] @ ''0.3, 0.7'' @ [TAB] @ ''/out/sample'' @ [NL]],
          mtime = 5\<rparr>),
        (''/out/sample.segs.vcf.gz'', \<lparr>content = [''vcf''], mtime = 6\<rparr>),
        (''/out/sample/sample_CNA.pdf'', \<lparr>content = [''plot''], mtime = 4\<rparr>)]"

definition demo_stale_world :: world where
  "demo_stale_world =
     demo_disk [(''/o/s.segs.txt'', \<lparr>content = demo_segs, mtime = 9\<rparr>),
                (''/o/s.segs.vcf'', \<lparr>content = [''stale''], mtime = 1\<rparr>)]"

definition demo_fresh_world :: world where
  "demo_fresh_world = demo_disk [(''/o/s.segs.txt'', \<lparr>content = demo_segs, mtime = 9\<rparr>)]"

definition demo_items :: "data list" where
  "demo_items = [demo_tumor, demo_normal]"

definition demo_workdir :: path where
  "demo_workdir = ''/w/structural/S1/titancna''"

text \<open>A frame whose one segment starts at the largest 64-bit integer.\<close>

definition demo_frame_max :: frame where
  "demo_frame_max =
     [(''chromosome'', StrCol [''chr1'']), (''start'', IntCol [9223372036854775807]),
      (''end'', IntCol [200]), (''gene'', StrCol [''TP53'']), (''log2'', FloatCol [''-0.5''])]"

section \<open>Verified properties\<close>

subsection \<open>Auxiliary facts\<close>

text \<open>What each step leaves of the two logs, and what a file holds after a transaction.\<close>

lemma truncate_files [simp]: "files (disk.truncate (w::world)) = files w"
  by (simp add: disk.truncate_def)

lemma truncate_now [simp]: "now (disk.truncate (w::world)) = now w"
  by (simp add: disk.truncate_def)

lemma file_exists_calls [simp]: "file_exists (w\<lparr>calls := c\<rparr>) p = file_exists w p"
  by (simp add: file_exists_def)

lemma file_uptodate_calls [simp]: "file_uptodate (w\<lparr>calls := c\<rparr>) p q = file_uptodate w p q"
  by (simp add: file_uptodate_def split: option.split)

lemma read_text_renamed: "read_text (rename_file tx out (write_file tx ls w)) out = Some ls"
  by (simp add: read_text_def rename_file_def write_file_def update_conv')

lemma rename_file_logs [simp]:
  "calls (rename_file a b w) = calls w" "cmds (rename_file a b w) = cmds w"
  by (simp_all add: rename_file_def split: option.split)

lemma remove_tree_logs [simp]:
  "calls (remove_tree a w) = calls w" "cmds (remove_tree a w) = cmds w"
  by (simp_all add: remove_tree_def)

lemma write_file_logs [simp]:
  "calls (write_file a ls w) = calls w" "cmds (write_file a ls w) = cmds w"
  by (simp_all add: write_file_def)

lemma do_run_logs:
  "do_run env cmd w = Inr w1 \<Longrightarrow> calls w1 = calls w \<and> cmds w1 = cmds w @ [cmd]"
  by (auto simp: do_run_def split: sum.splits)

lemma move_globbed_logs:
  "move_globbed pre dst w = Inr w1 \<Longrightarrow> calls w1 = calls w \<and> cmds w1 = cmds w"
  by (auto simp: move_globbed_def Let_def split: option.splits prod.splits)

lemma shutil_move_logs:
  "shutil_move src dst w = Inr w1 \<Longrightarrow> calls w1 = calls w \<and> cmds w1 = cmds w"
  by (auto simp: shutil_move_def split: option.splits)

lemma external_logs:
  "external f w = Inr (x, w1) \<Longrightarrow> calls w1 = calls w \<and> cmds w1 = cmds w"
  by (auto simp: external_def split: sum.splits prod.splits)

lemma titan_cn_file_path:
  "titan_cn_file env (Some cnr) work_dir data w = Inr (p, w1) \<Longrightarrow>
   p = path_join work_dir (fst (splitext_plus env (basename cnr)) @ ''.cn'')"
  by (auto simp: titan_cn_file_def Let_def split: if_splits sum.splits)

lemma run_titancna_result:
  "run_titancna env cn_file het_file ploidy num_clusters work_dir data w = Inr (p, w1) \<Longrightarrow>
   p = path_join work_dir (''run_ploidy'' @ str_nat ploidy) \<and>
   calls w1 = calls w @ [CellCall ploidy num_clusters]"
  by (auto simp: run_titancna_def Let_def safe_makedir_def split: if_splits sum.splits
      dest!: do_run_logs move_globbed_logs shutil_move_logs)

lemma run_select_solution_path:
  "run_select_solution env ploidy_outdirs work_dir data w = Inr (p, w1) \<Longrightarrow>
   p = path_join work_dir ''optimalClusters.txt''"
  by (auto simp: run_select_solution_def Let_def split: if_splits sum.splits)

lemma os_path_exists_calls [simp]: "os_path_exists (w\<lparr>calls := c\<rparr>) p = os_path_exists w p"
  by (simp add: os_path_exists_def)

lemma read_text_calls [simp]: "read_text (w\<lparr>calls := c\<rparr>) p = read_text w p"
  by (simp add: read_text_def)

lemma write_chunks_all:
  "map (titan_cn_chunk env) chunks = map Inr outs \<Longrightarrow>
   write_chunks env chunks written = Inr (written @ concat (map (to_csv env) outs))"
proof (induction chunks arbitrary: outs written)
  case Nil
  then show ?case by simp
next
  case (Cons chunk chunks)
  then obtain out rest where "outs = out # rest" "titan_cn_chunk env chunk = Inr out"
    "map (titan_cn_chunk env) chunks = map Inr rest"
    by (cases outs) auto
  with Cons.IH [of rest "written @ to_csv env out"] show ?case by simp
qed

lemma seg_fields_form:
  "seg_fields header line = Inr out \<Longrightarrow>
   \<exists>chromosome start_position info titan_call.
     out = [chromosome, start_position, ''.'', ''N'', ''<'' @ get_svtype titan_call @ ''>'',
            ''.'', ''.'', info, ''GT'', ''0/1'']"
  unfolding seg_fields_def Let_def
  by (auto split: option.splits)

lemma get_svtype_alt:
  "''<'' @ get_svtype titan_call @ ''>'' \<in> {''<DEL>'', ''<DUP>'', ''<LOH>'', ''<CNV>''}"
  by (simp add: get_svtype_def)

lemma seg_fields_shape:
  assumes "seg_fields header line = Inr out"
  shows "length out = 10 \<and> out ! 3 = ''N'' \<and> out ! 9 = ''0/1'' \<and>
         out ! 4 \<in> {''<DEL>'', ''<DUP>'', ''<LOH>'', ''<CNV>''}"
proof -
  from seg_fields_form [OF assms] obtain chromosome start_position info titan_call
    where out: "out = [chromosome, start_position, ''.'', ''N'',
                       ''<'' @ get_svtype titan_call @ ''>'', ''.'', ''.'', info, ''GT'', ''0/1'']"
    by blast
  have "out ! 4 = ''<'' @ get_svtype titan_call @ ''>''"
    by (simp add: out)
  with get_svtype_alt [of titan_call] have "out ! 4 \<in> {''<DEL>'', ''<DUP>'', ''<LOH>'', ''<CNV>''}"
    by simp
  moreover have "length out = 10 \<and> out ! 3 = ''N'' \<and> out ! 9 = ''0/1''"
    by (simp add: out)
  ultimately show ?thesis by simp
qed

lemma seg_rows_shape:
  "seg_rows header ls = Inr outs \<Longrightarrow> out \<in> set outs \<Longrightarrow>
   length out = 10 \<and> out ! 3 = ''N'' \<and> out ! 9 = ''0/1'' \<and>
   out ! 4 \<in> {''<DEL>'', ''<DUP>'', ''<LOH>'', ''<CNV>''}"
proof (induction ls arbitrary: outs)
  case Nil
  then show ?case by simp
next
  case (Cons line ls)
  from Cons.prems(1) obtain o1 os where parts: "seg_fields header line = Inr o1"
      "seg_rows header ls = Inr os" "outs = o1 # os"
    by (auto split: sum.splits)
  show ?case
  proof (cases "out = o1")
    case True
    with parts(1) show ?thesis by (simp only: seg_fields_shape)
  next
    case False
    with Cons.prems(2) parts(3) have "out \<in> set os" by simp
    with Cons.IH [OF parts(2)] show ?thesis .
  qed
qed


lemma alt_ids_header: "alt_ids vcf_header = [''DEL'', ''DUP'', ''LOS'', ''CNV'']"
  by (simp add: alt_ids_def vcf_header_def)


lemma should_run_loop_length: "should_run_loop i ls = (2 < i + length ls \<and> ls \<noteq> [])"
  by (induction ls arbitrary: i) auto


lemma segs_to_vcf_logs:
  "segs_to_vcf env in_file data w = Inr (p, w1) \<Longrightarrow> calls w1 = calls w \<and> cmds w1 = cmds w"
  by (auto simp: segs_to_vcf_def Let_def file_transaction_def
      split: option.splits if_splits sum.splits dest!: external_logs)

lemma finalize_sv_result:
  "finalize_sv env solution_file data w = Inr (entry, w1) \<Longrightarrow>
   calls w1 = calls w @ [FinalizeCall solution_file] \<and> cmds w1 = cmds w \<and>
   map_of entry ''variantcaller'' = Some (Str ''titancna'')"
  unfolding finalize_sv_def Let_def
  by (auto split: option.splits sum.splits dest!: segs_to_vcf_logs)


lemma cluster_loop_three:
  assumes "cluster_loop (titancna_cell env cn_file het_file work_dir data) ploidy [1, 2, 3] out_dir w = Inr (r, w1)"
  shows "r = Some (path_join work_dir (''run_ploidy'' @ str_nat ploidy)) \<and>
         calls w1 = calls w @ [CellCall ploidy 1, CellCall ploidy 2, CellCall ploidy 3] \<and>
         (\<exists>u u1. run_titancna env cn_file het_file ploidy 3 work_dir data u =
                    Inr (path_join work_dir (''run_ploidy'' @ str_nat ploidy), u1))"
proof -
  from assms obtain d1 v1 d2 v2 d3 where
    c1: "run_titancna env cn_file het_file ploidy 1 work_dir data w = Inr (d1, v1)" and
    c2: "run_titancna env cn_file het_file ploidy 2 work_dir data v1 = Inr (d2, v2)" and
    c3: "run_titancna env cn_file het_file ploidy 3 work_dir data v2 = Inr (d3, w1)" and
    r: "r = Some d3"
    by (auto split: sum.splits)
  from run_titancna_result [OF c1] run_titancna_result [OF c2] run_titancna_result [OF c3] r c3
  show ?thesis by auto
qed

lemma ploidy_loop_three:
  assumes "ploidy_loop (titancna_cell env cn_file het_file work_dir data) [2, 3, 4] [] None w = Inr (outdirs, w1)"
  shows "outdirs = [(2, path_join work_dir (''run_ploidy'' @ str_nat 2)),
                    (3, path_join work_dir (''run_ploidy'' @ str_nat 3)),
                    (4, path_join work_dir (''run_ploidy'' @ str_nat 4))] \<and>
         calls w1 = calls w @ [CellCall 2 1, CellCall 2 2, CellCall 2 3,
                               CellCall 3 1, CellCall 3 2, CellCall 3 3,
                               CellCall 4 1, CellCall 4 2, CellCall 4 3]"
proof -
  from assms obtain r2 v2 r3 v3 r4 where
    l2: "cluster_loop (titancna_cell env cn_file het_file work_dir data) 2 [1, 2, 3] None w = Inr (r2, v2)" and
    l3: "cluster_loop (titancna_cell env cn_file het_file work_dir data) 3 [1, 2, 3] r2 v2 = Inr (r3, v3)" and
    l4: "cluster_loop (titancna_cell env cn_file het_file work_dir data) 4 [1, 2, 3] r3 v3 = Inr (r4, w1)" and
    o: "outdirs = [(2, the r2), (3, the r3), (4, the r4)]"
    by (simp only: ploidy_loop.simps split: sum.splits prod.splits option.splits) auto
  from cluster_loop_three [OF l2] cluster_loop_three [OF l3] cluster_loop_three [OF l4] o
  show ?thesis by simp
qed

text \<open>Addition of 1 in an \<^verbatim>\<open>int64\<close> column: exact below the largest value, wrapping at it.\<close>

lemma int64_succ:
  fixes s :: "64 word"
  shows "sint s < 9223372036854775807 \<Longrightarrow> sint (s + 1) = sint s + 1"
proof -
  assume a: "sint s < 9223372036854775807"
  have lo: "- 9223372036854775808 \<le> sint s"
    using sint_ge [of s] by simp
  have "sint (s + 1) = signed_take_bit 63 (sint s + 1)"
    by (simp add: sint_word_ariths)
  also have "\<dots> = sint s + 1"
    using a lo by (simp add: signed_take_bit_int_eq_self)
  finally show ?thesis .
qed

lemma int64_wrap: "sint ((9223372036854775807 :: 64 word) + 1) = - 9223372036854775808"
  by simp

text \<open>The sweep as the chain of its calls, and a renamed file at its new path.\<close>

lemma truncate_calls [simp]: "disk.truncate (w\<lparr>calls := c\<rparr>) = disk.truncate (w::world)"
  by (simp add: disk.truncate_def)

lemma file_exists_renamed:
  "map_of (files w) tx = Some f \<Longrightarrow>
   file_exists (rename_file tx out w) out \<and> read_text (rename_file tx out w) out = Some (content f)"
  by (simp add: file_exists_def read_text_def rename_file_def update_conv')

lemma cluster_loop_chain:
  "(cluster_loop cell ploidy [1, 2, 3] out_dir w = Inr (r, w3)) =
   (\<exists>d1 w1 d2 w2 d3.
      cell ploidy 1 w = Inr (d1, w1) \<and>
      cell ploidy 2 w1 = Inr (d2, w2) \<and>
      cell ploidy 3 w2 = Inr (d3, w3) \<and>
      r = Some d3)"
  by (auto split: sum.splits)

lemma ploidy_loop_chain:
  "(ploidy_loop cell [2, 3, 4] [] None w = Inr (outdirs, w3)) =
   (\<exists>d2 w1 d3 w2 d4.
      cluster_loop cell 2 [1, 2, 3] None w = Inr (Some d2, w1) \<and>
      cluster_loop cell 3 [1, 2, 3] (Some d2) w1 = Inr (Some d3, w2) \<and>
      cluster_loop cell 4 [1, 2, 3] (Some d3) w2 = Inr (Some d4, w3) \<and>
      outdirs = [(2, d2), (3, d3), (4, d4)])"
  by (auto simp del: cluster_loop.simps split: sum.splits prod.splits option.splits)

text \<open>Evaluations in the test environment that several of the theorems below are applied to.\<close>

lemma demo_sweep_ok:
  "(case ploidy_loop (titancna_cell demo_env ''/w/t.cn'' ''/w/hets.txt'' demo_workdir demo_tumor) [2, 3, 4] []
           None (demo_world []) of
      Inl e \<Rightarrow> False
    | Inr (outdirs, w1) \<Rightarrow> \<not> file_exists w1 ''/w/structural/S1/titancna/optimalClusters.txt'')"
  by code_simp

lemma demo_select_ok:
  "isl (run_select_solution demo_env outdirs work_dir data w) = False"
  by (simp add: run_select_solution_def Let_def file_transaction_def do_run_def demo_env_def)

lemma demo_run_ok: "isl (run demo_env demo_items (demo_world [''r1'', ''r2''])) = False"
  by code_simp

lemma demo_names:
  "get_paired demo_env demo_items = Some demo_pair"
  "sv_workdir (tumor_data demo_pair) = demo_workdir"
  "path_join demo_workdir ''optimalClusters.txt'' = ''/w/structural/S1/titancna/optimalClusters.txt''"
  "path_join demo_workdir ''run_ploidy2'' = ''/w/structural/S1/titancna/run_ploidy2''"
  "path_join demo_workdir ''run_ploidy3'' = ''/w/structural/S1/titancna/run_ploidy3''"
  "path_join demo_workdir ''run_ploidy4'' = ''/w/structural/S1/titancna/run_ploidy4''"
  "tx_file demo_env demo_tumor ''/w/structural/S1/titancna/optimalClusters.txt'' =
     ''/w/structural/S1/titancna/optimalClusters.txt.tx''"
  "normal_data demo_pair = Some demo_normal" "tumor_data demo_pair = demo_tumor"
  "sv demo_tumor = None"
  by code_simp+

lemma demo_selector_writes:
  "startswith ''titanCNA_selectSolution.R'' cmd \<Longrightarrow> subprocess demo_env cmd d0 = Inr d \<Longrightarrow>
   map_of (files d) ''/w/structural/S1/titancna/optimalClusters.txt.tx'' =
     Some \<lparr>content = demo_solution, mtime = Suc (now d0)\<rparr>"
  by (auto simp: demo_env_def demo_put_def update_conv')

subsection \<open>Classification table\<close>

text \<open>
  Claim C1. For every string \<open>call\<close>, \<open>get_svtype\<close> returns DEL exactly for HOMD and DLOH,
  DUP exactly for ALOH, GAIN, ASCNA, BCNA and UBCNA, LOH exactly for NLOH, and CNV exactly
  for every other string; XYZ and HET are among the others.
\<close>

theorem get_svtype_classification:
  "(get_svtype call = ''DEL'') = (call \<in> {''HOMD'', ''DLOH''}) \<and>
   (get_svtype call = ''DUP'') = (call \<in> {''ALOH'', ''GAIN'', ''ASCNA'', ''BCNA'', ''UBCNA''}) \<and>
   (get_svtype call = ''LOH'') = (call = ''NLOH'') \<and>
   (get_svtype call = ''CNV'') =
      (call \<notin> {''HOMD'', ''DLOH'', ''ALOH'', ''GAIN'', ''ASCNA'', ''BCNA'', ''UBCNA'', ''NLOH''}) \<and>
   get_svtype ''XYZ'' = ''CNV'' \<and> get_svtype ''HET'' = ''CNV''"
  by (simp add: get_svtype_def)

theorem get_svtype_classification_witness:
  "get_svtype ''DLOH'' = ''DEL'' \<and> get_svtype ''BCNA'' = ''DUP'' \<and>
   get_svtype ''NLOH'' = ''LOH'' \<and> get_svtype ''HET'' = ''CNV''"
  using get_svtype_classification [of "''DLOH''"] get_svtype_classification [of "''BCNA''"]
    get_svtype_classification [of "''NLOH''"]
  by simp


subsection \<open>Idempotence\<close>

text \<open>
  Claim C4. A second invocation of \<open>titan_cn_file\<close>, of a sweep cell \<open>run_titancna\<close> or of
  the selector \<open>run_select_solution\<close>, in the world the first one left and with the same
  arguments, returns the path the first one returned and runs no subprocess (the command log
  and the disk stay as they are), when the copy-number output is up to date against its
  input, when the cell's \<^verbatim>\<open>.titan.txt\<close> file is up to date against the copy-number file,
  and when \<^verbatim>\<open>optimalClusters.txt\<close> exists, respectively.
\<close>

theorem prepared_outputs_are_reused:
  "(titan_cn_file env (Some cnr) work_dir data w = Inr (cn, w1) \<and> file_uptodate w1 cn cnr
      \<longrightarrow> titan_cn_file env (Some cnr) work_dir data w1 = Inr (cn, w1)) \<and>
   (run_titancna env cn_file het_file ploidy num_clusters work_dir data u = Inr (ploidy_dir, u1) \<and>
    file_uptodate u1
      (path_join ploidy_dir (get_sample_name data @ ''_cluster'' @ fmt_02d num_clusters) @
       ''.titan.txt'') cn_file
      \<longrightarrow> (\<exists>u2. run_titancna env cn_file het_file ploidy num_clusters work_dir data u1 =
                   Inr (ploidy_dir, u2) \<and>
                 cmds u2 = cmds u1 \<and> files u2 = files u1 \<and> now u2 = now u1)) \<and>
   (run_select_solution env ploidy_outdirs work_dir data v = Inr (solution_file, v1) \<and>
    file_exists v1 (path_join work_dir ''optimalClusters.txt'')
      \<longrightarrow> (\<exists>v2. run_select_solution env ploidy_outdirs work_dir data v1 = Inr (solution_file, v2) \<and>
                 cmds v2 = cmds v1 \<and> files v2 = files v1 \<and> now v2 = now v1))"
proof (intro conjI impI)
  assume a: "titan_cn_file env (Some cnr) work_dir data w = Inr (cn, w1) \<and> file_uptodate w1 cn cnr"
  then have "cn = path_join work_dir (fst (splitext_plus env (basename cnr)) @ ''.cn'')"
    by (blast dest: titan_cn_file_path)
  with a show "titan_cn_file env (Some cnr) work_dir data w1 = Inr (cn, w1)"
    by (simp add: titan_cn_file_def)
next
  assume a: "run_titancna env cn_file het_file ploidy num_clusters work_dir data u = Inr (ploidy_dir, u1) \<and>
    file_uptodate u1
      (path_join ploidy_dir (get_sample_name data @ ''_cluster'' @ fmt_02d num_clusters) @
       ''.titan.txt'') cn_file"
  then have "ploidy_dir = path_join work_dir (''run_ploidy'' @ str_nat ploidy)"
    by (blast dest: run_titancna_result)
  with a have "run_titancna env cn_file het_file ploidy num_clusters work_dir data u1 =
      Inr (ploidy_dir, u1\<lparr>calls := calls u1 @ [CellCall ploidy num_clusters]\<rparr>)"
    by (simp add: run_titancna_def Let_def safe_makedir_def)
  then show "\<exists>u2. run_titancna env cn_file het_file ploidy num_clusters work_dir data u1 =
                   Inr (ploidy_dir, u2) \<and>
                 cmds u2 = cmds u1 \<and> files u2 = files u1 \<and> now u2 = now u1"
    by simp
next
  assume a: "run_select_solution env ploidy_outdirs work_dir data v = Inr (solution_file, v1) \<and>
    file_exists v1 (path_join work_dir ''optimalClusters.txt'')"
  then have "solution_file = path_join work_dir ''optimalClusters.txt''"
    by (blast dest: run_select_solution_path)
  with a have "run_select_solution env ploidy_outdirs work_dir data v1 =
      Inr (solution_file, v1\<lparr>calls := calls v1 @ [SelectCall ploidy_outdirs]\<rparr>)"
    by (simp add: run_select_solution_def Let_def)
  then show "\<exists>v2. run_select_solution env ploidy_outdirs work_dir data v1 = Inr (solution_file, v2) \<and>
                 cmds v2 = cmds v1 \<and> files v2 = files v1 \<and> now v2 = now v1"
    by simp
qed


theorem prepared_outputs_are_reused_witness:
  "(\<exists>cn w1. titan_cn_file demo_env (Some ''/in/t.cnr'') ''/w/structural/S1/titancna'' demo_tumor (demo_world []) = Inr (cn, w1) \<and>
      titan_cn_file demo_env (Some ''/in/t.cnr'') ''/w/structural/S1/titancna'' demo_tumor w1 = Inr (cn, w1)) \<and>
   (\<exists>d u1 u2. run_titancna demo_env ''/in/t.cnr'' ''/w/hets.txt'' 2 2 ''/w/structural/S1/titancna'' demo_tumor (demo_world []) = Inr (d, u1) \<and>
      run_titancna demo_env ''/in/t.cnr'' ''/w/hets.txt'' 2 2 ''/w/structural/S1/titancna'' demo_tumor u1 = Inr (d, u2) \<and>
      cmds u1 = cmds u2 \<and> length (cmds u1) = 1) \<and>
   (\<exists>s v1 v2. run_select_solution demo_env [(2, ''/w/run_ploidy2'')] ''/w/structural/S1/titancna'' demo_tumor (demo_world []) = Inr (s, v1) \<and>
      run_select_solution demo_env [(2, ''/w/run_ploidy2'')] ''/w/structural/S1/titancna'' demo_tumor v1 = Inr (s, v2) \<and>
      cmds v1 = cmds v2 \<and> length (cmds v1) = 1)"
proof -
  define r1 where "r1 = titan_cn_file demo_env (Some ''/in/t.cnr'') ''/w/structural/S1/titancna'' demo_tumor (demo_world [])"
  define r2 where "r2 = run_titancna demo_env ''/in/t.cnr'' ''/w/hets.txt'' 2 2 ''/w/structural/S1/titancna'' demo_tumor (demo_world [])"
  define r3 where "r3 = run_select_solution demo_env [(2, ''/w/run_ploidy2'')] ''/w/structural/S1/titancna'' demo_tumor (demo_world [])"
  have 1: "r1 = Inr (projr r1)" "file_uptodate (snd (projr r1)) (fst (projr r1)) ''/in/t.cnr''"
    unfolding r1_def by code_simp+
  have 2: "r2 = Inr (projr r2)"
    "file_uptodate (snd (projr r2))
       (path_join (fst (projr r2)) (get_sample_name demo_tumor @ ''_cluster'' @ fmt_02d 2) @ ''.titan.txt'')
       ''/in/t.cnr''"
    "length (cmds (snd (projr r2))) = 1"
    unfolding r2_def by code_simp+
  have 3: "r3 = Inr (projr r3)"
    "file_exists (snd (projr r3)) (path_join ''/w/structural/S1/titancna'' ''optimalClusters.txt'')"
    "length (cmds (snd (projr r3))) = 1"
    unfolding r3_def by code_simp+
  obtain cn w1 where p1: "projr r1 = (cn, w1)" by (cases "projr r1")
  obtain d u1 where p2: "projr r2 = (d, u1)" by (cases "projr r2")
  obtain s v1 where p3: "projr r3 = (s, v1)" by (cases "projr r3")
  have e1: "r1 = Inr (cn, w1)" "file_uptodate w1 cn ''/in/t.cnr''"
    using 1 p1 by simp_all
  have e2: "r2 = Inr (d, u1)"
    "file_uptodate u1
       (path_join d (get_sample_name demo_tumor @ ''_cluster'' @ fmt_02d 2) @ ''.titan.txt'')
       ''/in/t.cnr''"
    "length (cmds u1) = 1"
    using 2 p2 by simp_all
  have e3: "r3 = Inr (s, v1)"
    "file_exists v1 (path_join ''/w/structural/S1/titancna'' ''optimalClusters.txt'')"
    "length (cmds v1) = 1"
    using 3 p3 by simp_all
  from prepared_outputs_are_reused [of demo_env "''/in/t.cnr''" "''/w/structural/S1/titancna''" demo_tumor "demo_world []" cn w1
      "''/in/t.cnr''" "''/w/hets.txt''" 2 2 "demo_world []" d u1 "[(2, ''/w/run_ploidy2'')]"
      "demo_world []" s v1]
    e1 e2 e3
  show ?thesis
    unfolding r1_def r2_def r3_def by fastforce
qed


subsection \<open>Coordinate shift\<close>

text \<open>
  Claim C5, as corrected. The conversion of a chunk keeps the columns chromosome, start, end
  and log2, in this order, under the names chrom, start, end and logR, and leaves chromosome,
  end and log2 unchanged. To every start it adds 1 in the arithmetic of the start column: in
  an \<^verbatim>\<open>int64\<close> column the written start is exactly the input's plus 1 whenever the input
  is below \<open>2\<^sup>6\<^sup>3 - 1\<close>, and at \<open>2\<^sup>6\<^sup>3 - 1\<close> it wraps around to \<open>- 2\<^sup>6\<^sup>3\<close>; in a
  floating point column it is numpy's sum of the start and 1. When the output is not up to
  date, \<open>titan_cn_file\<close> writes the converted chunks, in order, to its output file.
\<close>

theorem titan_cn_file_shifts_start:
  "(map_of chunk ''chromosome'' = Some c \<and> map_of chunk ''start'' = Some (IntCol starts) \<and>
    map_of chunk ''end'' = Some e \<and> map_of chunk ''log2'' = Some l
      \<longrightarrow> titan_cn_chunk env chunk =
            Inr [(''chrom'', c), (''start'', IntCol (map (\<lambda>s. s + 1) starts)), (''end'', e),
                 (''logR'', l)] \<and>
          (\<forall>s \<in> set starts. sint s < 9223372036854775807 \<longrightarrow> sint (s + 1) = sint s + 1) \<and>
          (\<forall>s \<in> set starts. sint s = 9223372036854775807 \<longrightarrow>
             sint (s + 1) = - 9223372036854775808)) \<and>
   (map_of chunk ''chromosome'' = Some c \<and> map_of chunk ''start'' = Some (FloatCol fstarts) \<and>
    map_of chunk ''end'' = Some e \<and> map_of chunk ''log2'' = Some l
      \<longrightarrow> titan_cn_chunk env chunk =
            Inr [(''chrom'', c), (''start'', FloatCol (map (\<lambda>s. float_add env s 1) fstarts)),
                 (''end'', e), (''logR'', l)]) \<and>
   (out_file = path_join work_dir (fst (splitext_plus env (basename cnr)) @ ''.cn'') \<and>
    \<not> file_uptodate w out_file cnr \<and> read_text w cnr = Some ls \<and>
    read_table env ls = Inr chunks \<and> map (titan_cn_chunk env) chunks = map Inr outs
      \<longrightarrow> (\<exists>w1. titan_cn_file env (Some cnr) work_dir data w = Inr (out_file, w1) \<and>
                 read_text w1 out_file = Some (concat (map (to_csv env) outs))))"
proof (intro conjI impI ballI)
  assume "map_of chunk ''chromosome'' = Some c \<and> map_of chunk ''start'' = Some (IntCol starts) \<and>
    map_of chunk ''end'' = Some e \<and> map_of chunk ''log2'' = Some l"
  then show "titan_cn_chunk env chunk =
      Inr [(''chrom'', c), (''start'', IntCol (map (\<lambda>s. s + 1) starts)), (''end'', e), (''logR'', l)]"
    by (simp add: titan_cn_chunk_def set_columns_def iadd_column_def)
next
  fix s :: "64 word"
  assume "sint s < 9223372036854775807"
  then show "sint (s + 1) = sint s + 1"
    by (rule int64_succ)
next
  fix s :: "64 word"
  assume "sint s = 9223372036854775807"
  then have "sint s = sint (9223372036854775807 :: 64 word)"
    by simp
  then have "s = 9223372036854775807"
    by (simp only: signed_word_eqI)
  then show "sint (s + 1) = - 9223372036854775808"
    by (simp only: int64_wrap)
next
  assume "map_of chunk ''chromosome'' = Some c \<and> map_of chunk ''start'' = Some (FloatCol fstarts) \<and>
    map_of chunk ''end'' = Some e \<and> map_of chunk ''log2'' = Some l"
  then show "titan_cn_chunk env chunk =
      Inr [(''chrom'', c), (''start'', FloatCol (map (\<lambda>s. float_add env s 1) fstarts)),
           (''end'', e), (''logR'', l)]"
    by (simp add: titan_cn_chunk_def set_columns_def iadd_column_def)
next
  assume a: "out_file = path_join work_dir (fst (splitext_plus env (basename cnr)) @ ''.cn'') \<and>
    \<not> file_uptodate w out_file cnr \<and> read_text w cnr = Some ls \<and>
    read_table env ls = Inr chunks \<and> map (titan_cn_chunk env) chunks = map Inr outs"
  then have "write_chunks env chunks [] = Inr (concat (map (to_csv env) outs))"
    using write_chunks_all [of env chunks outs "[]"] by simp
  with a show "\<exists>w1. titan_cn_file env (Some cnr) work_dir data w = Inr (out_file, w1) \<and>
      read_text w1 out_file = Some (concat (map (to_csv env) outs))"
    by (auto simp: titan_cn_file_def Let_def file_transaction_def read_text_renamed)
qed

text \<open>
  The claim as first stated, "start incremented by exactly 1" for every segment, fails for
  the segment that starts at \<open>2\<^sup>6\<^sup>3 - 1 = 9223372036854775807\<close>: the written start is the
  64-bit word \<open>2\<^sup>6\<^sup>3\<close>, which an \<^verbatim>\<open>int64\<close> column reads as \<open>- 9223372036854775808\<close>.
\<close>

theorem titan_cn_file_shifts_start_counterexample:
  "titan_cn_chunk demo_env demo_frame_max =
     Inr [(''chrom'', StrCol [''chr1'']), (''start'', IntCol [9223372036854775808]),
          (''end'', IntCol [200]), (''logR'', FloatCol [''-0.5''])] \<and>
   sint (9223372036854775808 :: 64 word) = - 9223372036854775808 \<and>
   sint (9223372036854775807 :: 64 word) + 1 = 9223372036854775808"
  by (simp add: titan_cn_chunk_def set_columns_def iadd_column_def demo_frame_max_def)

theorem titan_cn_file_shifts_start_witness:
  "titan_cn_chunk demo_env demo_frame =
     Inr [(''chrom'', StrCol [''chr1'']), (''start'', IntCol [101]), (''end'', IntCol [200]),
          (''logR'', FloatCol [''-0.5''])] \<and>
   sint (101 :: 64 word) = sint (100 :: 64 word) + 1 \<and>
   (\<exists>w1. titan_cn_file demo_env (Some ''/in/t.cnr'') ''/w'' demo_tumor (demo_world []) =
            Inr (''/w/t.cn'', w1) \<and>
          read_text w1 ''/w/t.cn'' =
            Some [''chrom'' @ [TAB] @ ''start'' @ [TAB] @ ''end'' @ [TAB] @ ''logR'' @ [NL],
                  ''chr1'' @ [TAB] @ ''101'' @ [TAB] @ ''200'' @ [TAB] @ ''-0.5'' @ [NL]])"
proof -
  let ?out = "[(''chrom'', StrCol [''chr1'']), (''start'', IntCol [101]), (''end'', IntCol [200]),
               (''logR'', FloatCol [''-0.5''])]"
  note claim = titan_cn_file_shifts_start [of demo_frame "StrCol [''chr1'']" "[100]" "IntCol [200]"
      "FloatCol [''-0.5'']" demo_env "[]" "''/w/t.cn''" "''/w''" "''/in/t.cnr''" "demo_world []"
      "[''cnr'']" "[demo_frame]" "[?out]" demo_tumor]
  have cols: "map_of demo_frame ''chromosome'' = Some (StrCol [''chr1''])"
    "map_of demo_frame ''start'' = Some (IntCol [100])"
    "map_of demo_frame ''end'' = Some (IntCol [200])"
    "map_of demo_frame ''log2'' = Some (FloatCol [''-0.5''])"
    by (simp_all add: demo_frame_def)
  with claim have chunk: "titan_cn_chunk demo_env demo_frame = Inr ?out"
    and succ: "sint ((100 :: 64 word) + 1) = sint (100 :: 64 word) + 1"
    by simp_all
  have pre: "''/w/t.cn'' = path_join ''/w'' (fst (splitext_plus demo_env (basename ''/in/t.cnr'')) @ ''.cn'')"
    "\<not> file_uptodate (demo_world []) ''/w/t.cn'' ''/in/t.cnr''"
    "read_text (demo_world []) ''/in/t.cnr'' = Some [''cnr'']"
    "read_table demo_env [''cnr''] = Inr [demo_frame]"
    by code_simp+
  have csv: "concat (map (to_csv demo_env) [?out]) =
      [''chrom'' @ [TAB] @ ''start'' @ [TAB] @ ''end'' @ [TAB] @ ''logR'' @ [NL],
       ''chr1'' @ [TAB] @ ''101'' @ [TAB] @ ''200'' @ [TAB] @ ''-0.5'' @ [NL]]"
    by code_simp
  from claim pre chunk have "\<exists>w1. titan_cn_file demo_env (Some ''/in/t.cnr'') ''/w'' demo_tumor (demo_world []) =
            Inr (''/w/t.cn'', w1) \<and>
          read_text w1 ''/w/t.cn'' = Some (concat (map (to_csv demo_env) [?out]))"
    by simp
  with chunk csv succ show ?thesis by simp
qed

subsection \<open>Parsing the solution summary\<close>

text \<open>
  Claim C6. For a solution file of two tab-delimited lines whose header has the keys purity,
  ploidy, cellPrev and path, \<open>finalize_sv\<close> returns purity and ploidy as the values under
  these keys, the cellular prevalence as the value of cellPrev split at commas with each
  element stripped of white space, and as plots those of the four candidate paths that exist
  on disk.
\<close>

theorem finalize_sv_parses_solution:
  assumes "read_text w solution_file = Some [header, vals]"
    and "solution = dict_zip (split_on TAB (strip_chars [CHR 0x0D, CHR 0x0A] header))
                             (split_on TAB (strip_chars [CHR 0x0D, CHR 0x0A] vals))"
    and "solution ''purity'' = Some purity" and "solution ''ploidy'' = Some ploidy"
    and "solution ''cellPrev'' = Some cell_prev" and "solution ''path'' = Some spath"
    and "segs_to_vcf env (spath @ ''.segs.txt'') data
           (w\<lparr>calls := calls w @ [FinalizeCall solution_file]\<rparr>) = Inr (vrn, w1)"
  shows "finalize_sv env solution_file data w =
           Inr ([(''variantcaller'', Str ''titancna''),
                 (''purity'', Str purity),
                 (''ploidy'', Str ploidy),
                 (''cellular_prevalence'', StrList (map strip (split_on (CHR '','') cell_prev))),
                 (''plot'', StrList (filter (os_path_exists w)
                    [spath @ ''.Rplots.pdf'', spath @ ''/'' @ basename spath @ ''_CF.pdf'',
                     spath @ ''/'' @ basename spath @ ''_CNA.pdf'',
                     spath @ ''/'' @ basename spath @ ''_LOH.pdf''])),
                 (''subclones'', Str (spath @ ''.segs.txt'')),
                 (''vrn_file'', Str vrn)], w1)"
  using assms
  by (simp add: finalize_sv_def Let_def readline_def plot_candidates_def cong: filter_cong)


theorem finalize_sv_parses_solution_witness:
  "map_sum id fst (finalize_sv demo_env ''/sol.txt'' demo_tumor demo_summary_world) =
     Inr [(''variantcaller'', Str ''titancna''),
          (''purity'', Str ''0.4''),
          (''ploidy'', Str ''2.1''),
          (''cellular_prevalence'', StrList [''0.3'', ''0.7'']),
          (''plot'', StrList [''/out/sample/sample_CNA.pdf'']),
          (''subclones'', Str ''/out/sample.segs.txt''),
          (''vrn_file'', Str ''/out/sample.segs.vcf.gz'')]"
proof -
  let ?header = "''purity'' @ [TAB] @ ''ploidy'' @ [TAB] @ ''cellPrev'' @ [TAB] @ ''path'' @ [NL]"
  let ?vals = "''0.4'' @ [TAB] @ ''2.1'' @ [TAB] @ ''0.3, 0.7'' @ [TAB] @ ''/out/sample'' @ [NL]"
  let ?solution = "dict_zip (split_on TAB (strip_chars [CHR 0x0D, CHR 0x0A] ?header))
                            (split_on TAB (strip_chars [CHR 0x0D, CHR 0x0A] ?vals))"
  let ?r = "segs_to_vcf demo_env (''/out/sample'' @ ''.segs.txt'') demo_tumor
              (demo_summary_world\<lparr>calls := calls demo_summary_world @ [FinalizeCall ''/sol.txt'']\<rparr>)"
  have sol: "read_text demo_summary_world ''/sol.txt'' = Some [?header, ?vals]"
    by code_simp
  have keys: "?solution ''purity'' = Some ''0.4''" "?solution ''ploidy'' = Some ''2.1''"
    "?solution ''cellPrev'' = Some ''0.3, 0.7''" "?solution ''path'' = Some ''/out/sample''"
    by code_simp+
  have vcf: "?r = Inr (''/out/sample.segs.vcf.gz'', snd (projr ?r))"
    by code_simp
  have parts: "map strip (split_on (CHR '','') ''0.3, 0.7'') = [''0.3'', ''0.7'']"
    "filter (os_path_exists demo_summary_world)
       [''/out/sample'' @ ''.Rplots.pdf'', ''/out/sample'' @ ''/'' @ basename ''/out/sample'' @ ''_CF.pdf'',
        ''/out/sample'' @ ''/'' @ basename ''/out/sample'' @ ''_CNA.pdf'',
        ''/out/sample'' @ ''/'' @ basename ''/out/sample'' @ ''_LOH.pdf''] =
     [''/out/sample/sample_CNA.pdf'']"
    by code_simp+
  from finalize_sv_parses_solution [OF sol refl keys vcf, unfolded parts]
  show ?thesis by simp
qed

subsection \<open>Create-once conversion\<close>

text \<open>
  Claim C7. When the compressed or the uncompressed output exists, \<open>segs_to_vcf\<close> writes
  nothing and hands the existing path to compression and indexing, whatever the modification
  times are; otherwise it writes the converted segments to the output and then hands it over.
\<close>

theorem segs_to_vcf_skips_existing:
  assumes "out_file = fst (splitext_plus env in_file) @ ''.vcf''"
    and "tx = tx_file env data out_file"
  shows "(file_exists w (out_file @ ''.gz'') \<or> file_exists w out_file
            \<longrightarrow> segs_to_vcf env in_file data w =
                  external (bgzip_and_index env out_file (get_config data)) w) \<and>
         (\<not> file_exists w (out_file @ ''.gz'') \<and> \<not> file_exists w out_file \<and>
          read_text w in_file = Some in_lines \<and>
          vcf_text (get_sample_name data) in_lines = Inr out_lines
            \<longrightarrow> read_text (rename_file tx out_file (write_file tx out_lines w)) out_file =
                    Some out_lines \<and>
                segs_to_vcf env in_file data w =
                  external (bgzip_and_index env out_file (get_config data))
                    (rename_file tx out_file (write_file tx out_lines w)))"
  using assms
  by (auto simp: segs_to_vcf_def Let_def file_transaction_def read_text_renamed)


theorem segs_to_vcf_skips_existing_witness:
  "file_uptodate demo_stale_world ''/o/s.segs.vcf'' ''/o/s.segs.txt'' = False \<and>
   segs_to_vcf demo_env ''/o/s.segs.txt'' demo_tumor demo_stale_world =
     Inr (''/o/s.segs.vcf.gz'',
          demo_disk [(''/o/s.segs.txt'', \<lparr>content = demo_segs, mtime = 9\<rparr>),
                     (''/o/s.segs.vcf.gz'', \<lparr>content = [''stale''], mtime = 1\<rparr>)]) \<and>
   map_sum id (\<lambda>(p, w). (p, map_option (drop 14) (read_text w p)))
     (segs_to_vcf demo_env ''/o/s.segs.txt'' demo_tumor demo_fresh_world) =
     Inr (''/o/s.segs.vcf.gz'',
          Some [join [TAB] [''1'', ''1000'', ''.'', ''N'', ''<DEL>'', ''.'', ''.'',
                  ''SVTYPE=DEL;END=2000;CN=1;MajorCN=1;MinorCN=0;FOLD_CHANGE_LOG=-0.5'',
                  ''GT'', ''0/1''] @ [NL],
                join [TAB] [''2'', ''500'', ''.'', ''N'', ''<LOH>'', ''.'', ''.'',
                  ''SVTYPE=LOH;END=900;CN=2;MajorCN=2;MinorCN=0;FOLD_CHANGE_LOG=0.0'',
                  ''GT'', ''0/1''] @ [NL],
                join [TAB] [''3'', ''10'', ''.'', ''N'', ''<CNV>'', ''.'', ''.'',
                  ''SVTYPE=CNV;END=90;CN=2;MajorCN=1;MinorCN=1;FOLD_CHANGE_LOG=0.1'',
                  ''GT'', ''0/1''] @ [NL]])"
proof -
  let ?out = "''/o/s.segs.vcf''"
  let ?tx = "''/o/s.segs.vcf.tx''"
  let ?lines = "projr (vcf_text (get_sample_name demo_tumor) demo_segs)"
  have names: "?out = fst (splitext_plus demo_env ''/o/s.segs.txt'') @ ''.vcf''"
    "?tx = tx_file demo_env demo_tumor ?out"
    by code_simp+
  note stale = segs_to_vcf_skips_existing [OF names, of demo_stale_world demo_segs ?lines]
  note fresh = segs_to_vcf_skips_existing [OF names, of demo_fresh_world demo_segs ?lines]
  have s1: "file_exists demo_stale_world ?out"
    "file_uptodate demo_stale_world ''/o/s.segs.vcf'' ''/o/s.segs.txt'' = False"
    "external (bgzip_and_index demo_env ?out (get_config demo_tumor)) demo_stale_world =
       Inr (''/o/s.segs.vcf.gz'',
            demo_disk [(''/o/s.segs.txt'', \<lparr>content = demo_segs, mtime = 9\<rparr>),
                       (''/o/s.segs.vcf.gz'', \<lparr>content = [''stale''], mtime = 1\<rparr>)])"
    by code_simp+
  have f1: "\<not> file_exists demo_fresh_world (?out @ ''.gz'')" "\<not> file_exists demo_fresh_world ?out"
    "read_text demo_fresh_world ''/o/s.segs.txt'' = Some demo_segs"
    "vcf_text (get_sample_name demo_tumor) demo_segs = Inr ?lines"
    by code_simp+
  have f2: "map_sum id (\<lambda>(p, w). (p, map_option (drop 14) (read_text w p)))
      (external (bgzip_and_index demo_env ?out (get_config demo_tumor))
         (rename_file ?tx ?out (write_file ?tx ?lines demo_fresh_world))) =
     Inr (''/o/s.segs.vcf.gz'',
          Some [join [TAB] [''1'', ''1000'', ''.'', ''N'', ''<DEL>'', ''.'', ''.'',
                  ''SVTYPE=DEL;END=2000;CN=1;MajorCN=1;MinorCN=0;FOLD_CHANGE_LOG=-0.5'',
                  ''GT'', ''0/1''] @ [NL],
                join [TAB] [''2'', ''500'', ''.'', ''N'', ''<LOH>'', ''.'', ''.'',
                  ''SVTYPE=LOH;END=900;CN=2;MajorCN=2;MinorCN=0;FOLD_CHANGE_LOG=0.0'',
                  ''GT'', ''0/1''] @ [NL],
                join [TAB] [''3'', ''10'', ''.'', ''N'', ''<CNV>'', ''.'', ''.'',
                  ''SVTYPE=CNV;END=90;CN=2;MajorCN=1;MinorCN=1;FOLD_CHANGE_LOG=0.1'',
                  ''GT'', ''0/1''] @ [NL]])"
    by code_simp
  from stale s1 have a: "segs_to_vcf demo_env ''/o/s.segs.txt'' demo_tumor demo_stale_world =
     Inr (''/o/s.segs.vcf.gz'',
          demo_disk [(''/o/s.segs.txt'', \<lparr>content = demo_segs, mtime = 9\<rparr>),
                     (''/o/s.segs.vcf.gz'', \<lparr>content = [''stale''], mtime = 1\<rparr>)])"
    by simp
  from fresh f1 have b: "segs_to_vcf demo_env ''/o/s.segs.txt'' demo_tumor demo_fresh_world =
      external (bgzip_and_index demo_env ?out (get_config demo_tumor))
         (rename_file ?tx ?out (write_file ?tx ?lines demo_fresh_world))"
    by blast
  show ?thesis
    using a s1(2) f2 unfolding b by simp
qed

subsection \<open>Missing variant calls\<close>

text \<open>
  Claim C8. With an empty list of variant-call sources \<open>titan_het_file\<close> raises the assertion
  error and returns nothing; with a non-empty list it prepares the file from the first source.
\<close>

theorem titan_het_file_requires_variants:
  "titan_het_file env [] work_dir pair w =
     Inl (AssertionError ''Did not find compatible variant calling files for TitanCNA inputs'') \<and>
   titan_het_file env (v # vs) work_dir pair w =
     external (prep_vrn_file env (vrn_file v) (variantcaller v) work_dir pair OutWriter) w"
  by (simp add: titan_het_file_def)

theorem titan_het_file_requires_variants_witness:
  "titan_het_file demo_env [] ''/w'' demo_pair
     (demo_disk [(''/in/t.vcf'', \<lparr>content = [''row''], mtime = 1\<rparr>)]) =
     Inl (AssertionError ''Did not find compatible variant calling files for TitanCNA inputs'') \<and>
   map_sum id fst
     (titan_het_file demo_env
        [\<lparr>vrn_file = ''/in/t.vcf'', variantcaller = ''vardict''\<rparr>,
         \<lparr>vrn_file = ''/in/other.vcf'', variantcaller = ''mutect''\<rparr>] ''/w'' demo_pair
        (demo_disk [(''/in/t.vcf'', \<lparr>content = [''row''], mtime = 1\<rparr>)])) =
     Inr ''/w/hets.txt''"
proof -
  let ?w = "demo_disk [(''/in/t.vcf'', \<lparr>content = [''row''], mtime = 1\<rparr>)]"
  let ?v = "\<lparr>vrn_file = ''/in/t.vcf'', variantcaller = ''vardict''\<rparr>"
  let ?vs = "[\<lparr>vrn_file = ''/in/other.vcf'', variantcaller = ''mutect''\<rparr>]"
  note claim = titan_het_file_requires_variants [of demo_env "''/w''" demo_pair ?w ?v ?vs]
  have "map_sum id fst
          (external (prep_vrn_file demo_env (vrn_file ?v) (variantcaller ?v) ''/w'' demo_pair
                       OutWriter) ?w) = Inr ''/w/hets.txt''"
    by code_simp
  with claim show ?thesis by simp
qed

subsection \<open>Rows and preamble of the variant file\<close>

text \<open>
  Claim C9. Everything \<open>segs_to_vcf\<close> writes is the fixed preamble, the column header and
  one row per segment; every row has the reference allele N, the genotype field 0/1 and an
  alt allele among \<^verbatim>\<open><DEL>\<close>, \<^verbatim>\<open><DUP>\<close>, \<^verbatim>\<open><LOH>\<close> and \<^verbatim>\<open><CNV>\<close>. The preamble
  declares exactly the ALT identifiers DEL, DUP, LOS and CNV, and a row with the alt allele
  \<^verbatim>\<open><LOH>\<close>, which the preamble does not declare, can be written.
\<close>

theorem vcf_rows_and_preamble:
  "(vcf_text sample_name in_lines = Inr out_lines
      \<longrightarrow> (\<exists>outs. out_lines =
                   vcf_header @
                   [join [TAB] [''#CHROM'', ''POS'', ''ID'', ''REF'', ''ALT'', ''QUAL'', ''FILTER'',
                                ''INFO'', ''FORMAT'', sample_name] @ [NL]] @
                   map (\<lambda>out. join [TAB] out @ [NL]) outs \<and>
                 (\<forall>out \<in> set outs.
                    length out = 10 \<and> out ! 3 = ''N'' \<and> out ! 9 = ''0/1'' \<and>
                    out ! 4 \<in> {''<DEL>'', ''<DUP>'', ''<LOH>'', ''<CNV>''}))) \<and>
   alt_ids vcf_header = [''DEL'', ''DUP'', ''LOS'', ''CNV''] \<and>
   (\<exists>header line out. seg_fields header line = Inr out \<and> out ! 4 = ''<LOH>'')"
proof (intro conjI impI)
  assume "vcf_text sample_name in_lines = Inr out_lines"
  then obtain outs where rows:
      "seg_rows (split_on TAB (strip (case in_lines of [] \<Rightarrow> [] | l # _ \<Rightarrow> l))) (tl in_lines) = Inr outs"
    and layout: "out_lines =
        vcf_header @
        [join [TAB] [''#CHROM'', ''POS'', ''ID'', ''REF'', ''ALT'', ''QUAL'', ''FILTER'',
                     ''INFO'', ''FORMAT'', sample_name] @ [NL]] @
        map (\<lambda>out. join [TAB] out @ [NL]) outs"
    by (auto simp: vcf_text_def Let_def split: sum.splits)
  from seg_rows_shape [OF rows] layout
  show "\<exists>outs. out_lines =
          vcf_header @
          [join [TAB] [''#CHROM'', ''POS'', ''ID'', ''REF'', ''ALT'', ''QUAL'', ''FILTER'',
                       ''INFO'', ''FORMAT'', sample_name] @ [NL]] @
          map (\<lambda>out. join [TAB] out @ [NL]) outs \<and>
        (\<forall>out \<in> set outs.
           length out = 10 \<and> out ! 3 = ''N'' \<and> out ! 9 = ''0/1'' \<and>
           out ! 4 \<in> {''<DEL>'', ''<DUP>'', ''<LOH>'', ''<CNV>''})"
    by blast
next
  show "alt_ids vcf_header = [''DEL'', ''DUP'', ''LOS'', ''CNV'']"
    by (rule alt_ids_header)
next
  have "seg_fields (split_on TAB (strip (demo_segs ! 0))) (demo_segs ! 2) =
          Inr (projr (seg_fields (split_on TAB (strip (demo_segs ! 0))) (demo_segs ! 2))) \<and>
        projr (seg_fields (split_on TAB (strip (demo_segs ! 0))) (demo_segs ! 2)) ! 4 = ''<LOH>''"
    by code_simp
  then show "\<exists>header line out. seg_fields header line = Inr out \<and> out ! 4 = ''<LOH>''"
    by blast
qed

theorem vcf_rows_and_preamble_witness:
  "(\<exists>outs. projr (vcf_text ''S1'' demo_segs) =
             vcf_header @
             [join [TAB] [''#CHROM'', ''POS'', ''ID'', ''REF'', ''ALT'', ''QUAL'', ''FILTER'',
                          ''INFO'', ''FORMAT'', ''S1''] @ [NL]] @
             map (\<lambda>out. join [TAB] out @ [NL]) outs \<and>
           length outs = 3 \<and>
           list_all (\<lambda>out. out ! 3 = ''N'' \<and> out ! 9 = ''0/1'' \<and>
                        out ! 4 \<in> {''<DEL>'', ''<DUP>'', ''<LOH>'', ''<CNV>''}) outs) \<and>
   ''LOH'' \<notin> set (alt_ids vcf_header)"
proof -
  have ok: "vcf_text ''S1'' demo_segs = Inr (projr (vcf_text ''S1'' demo_segs))"
    by code_simp
  have len: "length (projr (vcf_text ''S1'' demo_segs)) = 17"
    by code_simp
  from vcf_rows_and_preamble [of "''S1''" demo_segs "projr (vcf_text ''S1'' demo_segs)"] ok
  obtain outs where outs: "projr (vcf_text ''S1'' demo_segs) =
        vcf_header @
        [join [TAB] [''#CHROM'', ''POS'', ''ID'', ''REF'', ''ALT'', ''QUAL'', ''FILTER'',
                     ''INFO'', ''FORMAT'', ''S1''] @ [NL]] @
        map (\<lambda>out. join [TAB] out @ [NL]) outs"
    and shape: "\<forall>out \<in> set outs.
        length out = 10 \<and> out ! 3 = ''N'' \<and> out ! 9 = ''0/1'' \<and>
        out ! 4 \<in> {''<DEL>'', ''<DUP>'', ''<LOH>'', ''<CNV>''}"
    and ids: "alt_ids vcf_header = [''DEL'', ''DUP'', ''LOS'', ''CNV'']"
    by blast
  have "length vcf_header = 13"
    by (simp add: vcf_header_def)
  with len outs have "length outs = 3"
    by simp
  moreover from shape have "list_all (\<lambda>out. out ! 3 = ''N'' \<and> out ! 9 = ''0/1'' \<and>
      out ! 4 \<in> {''<DEL>'', ''<DUP>'', ''<LOH>'', ''<CNV>''}) outs"
    by (simp add: list_all_iff)
  moreover have "''LOH'' \<notin> set (alt_ids vcf_header)"
    by (simp add: ids)
  ultimately show ?thesis
    using outs by blast
qed

subsection \<open>Gating\<close>



subsection \<open>The sweep and the selection\<close>

text \<open>
  Claim C3. Whatever the call in their body does, the loops over ploidy 2, 3, 4 and 1, 2, 3
  clusters return exactly when the nine cells, run one after the other in this order, each
  on the world the one before left, all return; the sweep then records, for each ploidy, the
  directory that the call for three clusters returned in this chain, and not the one of the
  first or second call. With \<open>run_titancna\<close> as the call, a sweep that returns has entered
  exactly these nine cells and the recorded directories are the three ploidy directories.
  The selector, given the three pairs, returns the path of \<^verbatim>\<open>optimalClusters.txt\<close> in the
  work directory. When that file exists it does nothing else; otherwise it runs one command
  with exactly the three \<^verbatim>\<open>--ploidyRun\<close> arguments on the disk the sweep left, and the
  file that the command wrote at the temporary path is afterwards the file
  \<^verbatim>\<open>optimalClusters.txt\<close>.
\<close>

theorem sweep_then_select:
  assumes "cmd = ''titanCNA_selectSolution.R --ploidyRun2='' @ d2 @ '' --ploidyRun3='' @ d3 @
                 '' --ploidyRun4='' @ d4 @ '' --outFile='' @ tx"
    and "tx = tx_file env data (path_join work_dir ''optimalClusters.txt'')"
  shows
  "((ploidy_loop cell [2, 3, 4] [] None w0 = Inr (outdirs, w1)) =
      (\<exists>d21 a1 d22 a2 d23 a3 d31 a4 d32 a5 d33 a6 d41 a7 d42 a8 d43.
         cell 2 1 w0 = Inr (d21, a1) \<and> cell 2 2 a1 = Inr (d22, a2) \<and>
         cell 2 3 a2 = Inr (d23, a3) \<and>
         cell 3 1 a3 = Inr (d31, a4) \<and> cell 3 2 a4 = Inr (d32, a5) \<and>
         cell 3 3 a5 = Inr (d33, a6) \<and>
         cell 4 1 a6 = Inr (d41, a7) \<and> cell 4 2 a7 = Inr (d42, a8) \<and>
         cell 4 3 a8 = Inr (d43, w1) \<and>
         outdirs = [(2, d23), (3, d33), (4, d43)])) \<and>
   (ploidy_loop (titancna_cell env cn_file het_file work_dir data) [2, 3, 4] [] None w = Inr (ploidy_outdirs, w9)
      \<longrightarrow> calls w9 = calls w @ [CellCall 2 1, CellCall 2 2, CellCall 2 3,
                                  CellCall 3 1, CellCall 3 2, CellCall 3 3,
                                  CellCall 4 1, CellCall 4 2, CellCall 4 3] \<and>
          ploidy_outdirs = [(2, path_join work_dir ''run_ploidy2''),
                            (3, path_join work_dir ''run_ploidy3''),
                            (4, path_join work_dir ''run_ploidy4'')]) \<and>
   (run_select_solution env [(2, d2), (3, d3), (4, d4)] work_dir data w9 = Inr (solution_file, w10)
      \<longrightarrow> solution_file = path_join work_dir ''optimalClusters.txt'' \<and>
          (file_exists w9 solution_file \<longrightarrow>
             w10 = w9\<lparr>calls := calls w9 @ [SelectCall [(2, d2), (3, d3), (4, d4)]]\<rparr>) \<and>
          (\<not> file_exists w9 solution_file \<longrightarrow>
             (\<exists>d. subprocess env cmd (disk.truncate w9) = Inr d \<and>
                  w10 = rename_file tx solution_file
                          (w9\<lparr>calls := calls w9 @ [SelectCall [(2, d2), (3, d3), (4, d4)]],
                              files := files d, now := now d, cmds := cmds w9 @ [cmd]\<rparr>) \<and>
                  (\<forall>f. map_of (files d) tx = Some f \<longrightarrow>
                     file_exists w10 solution_file \<and>
                     read_text w10 solution_file = Some (content f)))))"
proof (intro conjI impI)
  show "(ploidy_loop cell [2, 3, 4] [] None w0 = Inr (outdirs, w1)) =
      (\<exists>d21 a1 d22 a2 d23 a3 d31 a4 d32 a5 d33 a6 d41 a7 d42 a8 d43.
         cell 2 1 w0 = Inr (d21, a1) \<and> cell 2 2 a1 = Inr (d22, a2) \<and>
         cell 2 3 a2 = Inr (d23, a3) \<and>
         cell 3 1 a3 = Inr (d31, a4) \<and> cell 3 2 a4 = Inr (d32, a5) \<and>
         cell 3 3 a5 = Inr (d33, a6) \<and>
         cell 4 1 a6 = Inr (d41, a7) \<and> cell 4 2 a7 = Inr (d42, a8) \<and>
         cell 4 3 a8 = Inr (d43, w1) \<and>
         outdirs = [(2, d23), (3, d33), (4, d43)])"
    unfolding ploidy_loop_chain cluster_loop_chain by blast
next
  assume sweep: "ploidy_loop (titancna_cell env cn_file het_file work_dir data) [2, 3, 4] [] None w =
      Inr (ploidy_outdirs, w9)"
  from ploidy_loop_three [OF sweep]
  show "calls w9 = calls w @ [CellCall 2 1, CellCall 2 2, CellCall 2 3,
                              CellCall 3 1, CellCall 3 2, CellCall 3 3,
                              CellCall 4 1, CellCall 4 2, CellCall 4 3]"
    and "ploidy_outdirs = [(2, path_join work_dir ''run_ploidy2''),
                           (3, path_join work_dir ''run_ploidy3''),
                           (4, path_join work_dir ''run_ploidy4'')]"
    by (simp_all add: str_nat.simps)
next
  assume select: "run_select_solution env [(2, d2), (3, d3), (4, d4)] work_dir data w9 =
      Inr (solution_file, w10)"
  have inputs: "''titanCNA_selectSolution.R '' @ ploidy_inputs [(2, d2), (3, d3), (4, d4)] @
      '' --outFile='' @ tx = cmd"
    by (simp add: assms(1) ploidy_inputs_def str_nat.simps)
  from run_select_solution_path [OF select]
  show path: "solution_file = path_join work_dir ''optimalClusters.txt''" .
  {
    assume "file_exists w9 solution_file"
    with select path
    show "w10 = w9\<lparr>calls := calls w9 @ [SelectCall [(2, d2), (3, d3), (4, d4)]]\<rparr>"
      by (simp add: run_select_solution_def Let_def)
  }
  assume fresh: "\<not> file_exists w9 solution_file"
  with select path obtain d where
    ran: "subprocess env cmd (disk.truncate w9) = Inr d" and
    after: "w10 = rename_file tx solution_file
              (w9\<lparr>calls := calls w9 @ [SelectCall [(2, d2), (3, d3), (4, d4)]],
                  files := files d, now := now d, cmds := cmds w9 @ [cmd]\<rparr>)"
    unfolding run_select_solution_def Let_def file_transaction_def do_run_def
      assms(2) [symmetric] inputs
    by (auto split: sum.splits)
  have "\<forall>f. map_of (files d) tx = Some f \<longrightarrow>
      file_exists w10 solution_file \<and> read_text w10 solution_file = Some (content f)"
    unfolding after by (simp add: file_exists_renamed)
  with ran after
  show "\<exists>d. subprocess env cmd (disk.truncate w9) = Inr d \<and>
      w10 = rename_file tx solution_file
              (w9\<lparr>calls := calls w9 @ [SelectCall [(2, d2), (3, d3), (4, d4)]],
                  files := files d, now := now d, cmds := cmds w9 @ [cmd]\<rparr>) \<and>
      (\<forall>f. map_of (files d) tx = Some f \<longrightarrow>
         file_exists w10 solution_file \<and> read_text w10 solution_file = Some (content f))"
    by blast
qed

theorem sweep_then_select_witness:
  "\<exists>w9 w10.
     ploidy_loop (titancna_cell demo_env ''/w/t.cn'' ''/w/hets.txt'' demo_workdir demo_tumor) [2, 3, 4] [] None
       (demo_world []) =
       Inr ([(2, ''/w/structural/S1/titancna/run_ploidy2''),
             (3, ''/w/structural/S1/titancna/run_ploidy3''),
             (4, ''/w/structural/S1/titancna/run_ploidy4'')], w9) \<and>
     calls w9 = [CellCall 2 1, CellCall 2 2, CellCall 2 3,
                 CellCall 3 1, CellCall 3 2, CellCall 3 3,
                 CellCall 4 1, CellCall 4 2, CellCall 4 3] \<and>
     \<not> file_exists w9 ''/w/structural/S1/titancna/optimalClusters.txt'' \<and>
     run_select_solution demo_env
       [(2, ''/w/structural/S1/titancna/run_ploidy2''),
        (3, ''/w/structural/S1/titancna/run_ploidy3''),
        (4, ''/w/structural/S1/titancna/run_ploidy4'')] demo_workdir demo_tumor w9 =
       Inr (''/w/structural/S1/titancna/optimalClusters.txt'', w10) \<and>
     file_exists w10 ''/w/structural/S1/titancna/optimalClusters.txt'' \<and>
     read_text w10 ''/w/structural/S1/titancna/optimalClusters.txt'' = Some demo_solution \<and>
     cmds w10 = cmds w9 @
       [''titanCNA_selectSolution.R --ploidyRun2=/w/structural/S1/titancna/run_ploidy2'' @
        '' --ploidyRun3=/w/structural/S1/titancna/run_ploidy3'' @
        '' --ploidyRun4=/w/structural/S1/titancna/run_ploidy4'' @
        '' --outFile=/w/structural/S1/titancna/optimalClusters.txt.tx'']"
proof -
  let ?d2 = "''/w/structural/S1/titancna/run_ploidy2''"
  let ?d3 = "''/w/structural/S1/titancna/run_ploidy3''"
  let ?d4 = "''/w/structural/S1/titancna/run_ploidy4''"
  let ?sol = "''/w/structural/S1/titancna/optimalClusters.txt''"
  let ?tx = "''/w/structural/S1/titancna/optimalClusters.txt.tx''"
  let ?cmd = "''titanCNA_selectSolution.R --ploidyRun2='' @ ?d2 @ '' --ploidyRun3='' @ ?d3 @
              '' --ploidyRun4='' @ ?d4 @ '' --outFile='' @ ?tx"
  from demo_sweep_ok obtain outdirs w9 where
    sweep: "ploidy_loop (titancna_cell demo_env ''/w/t.cn'' ''/w/hets.txt'' demo_workdir demo_tumor) [2, 3, 4] []
              None (demo_world []) = Inr (outdirs, w9)" and
    fresh: "\<not> file_exists w9 ?sol"
    by (auto split: sum.splits)
  have tx: "?tx = tx_file demo_env demo_tumor (path_join demo_workdir ''optimalClusters.txt'')"
    by (simp add: demo_names(3,7))
  note claim = sweep_then_select [of _ ?d2 ?d3 ?d4 _ demo_env demo_tumor demo_workdir _ _ _ _
      "''/w/t.cn''" "''/w/hets.txt''" "demo_world []" outdirs w9, OF refl tx]
  note swept = claim [THEN conjunct2, THEN conjunct1, THEN mp, OF sweep]
  from swept have
    cells: "calls w9 = calls (demo_world []) @
              [CellCall 2 1, CellCall 2 2, CellCall 2 3,
               CellCall 3 1, CellCall 3 2, CellCall 3 3,
               CellCall 4 1, CellCall 4 2, CellCall 4 3]" and
    outdirs: "outdirs = [(2, ?d2), (3, ?d3), (4, ?d4)]"
    by (simp_all add: demo_names(4-6))
  from demo_select_ok [of "[(2, ?d2), (3, ?d3), (4, ?d4)]" demo_workdir demo_tumor w9]
  obtain sol w10 where
    select: "run_select_solution demo_env [(2, ?d2), (3, ?d3), (4, ?d4)] demo_workdir demo_tumor w9 =
               Inr (sol, w10)"
    by (cases "run_select_solution demo_env [(2, ?d2), (3, ?d3), (4, ?d4)] demo_workdir
                 demo_tumor w9") auto
  note selected = claim [THEN conjunct2, THEN conjunct2, THEN mp, OF select]
  from selected have sol: "sol = ?sol"
    by (simp add: demo_names(3))
  from selected [THEN conjunct2, THEN conjunct2] fresh sol obtain d where
    ran: "subprocess demo_env ?cmd (disk.truncate w9) = Inr d" and
    after: "w10 = rename_file ?tx ?sol
              (w9\<lparr>calls := calls w9 @ [SelectCall [(2, ?d2), (3, ?d3), (4, ?d4)]],
                  files := files d, now := now d, cmds := cmds w9 @ [?cmd]\<rparr>)" and
    made: "\<forall>f. map_of (files d) ?tx = Some f \<longrightarrow>
             file_exists w10 ?sol \<and> read_text w10 ?sol = Some (content f)"
    by blast
  have "startswith ''titanCNA_selectSolution.R'' ?cmd"
    by simp
  from demo_selector_writes [OF this ran] made
  have written: "file_exists w10 ?sol" "read_text w10 ?sol = Some demo_solution"
    by simp_all
  have "cmds w10 = cmds w9 @ [?cmd]"
    unfolding after by simp
  with sweep cells fresh select sol written show ?thesis
    unfolding outdirs by (simp add: demo_world_def del: ploidy_loop.simps)
qed

subsection \<open>What the full pipeline returns\<close>

text \<open>
  Claim C10. When the full pipeline runs and returns, the returned list is the normal sample,
  if the pairing has one, followed by the tumor sample; the tumor sample differs from the
  input's only in its \<^verbatim>\<open>"sv"\<close> list, which is the old list (empty when the key was absent)
  with one entry of the caller \<^verbatim>\<open>titancna\<close> appended; the normal sample is unchanged.
\<close>

theorem run_appends_one_entry:
  assumes "get_paired env items = Some pair"
    and "titan_cn_file env (get_normalized_depth (tumor_data pair)) (sv_workdir (tumor_data pair))
           (tumor_data pair) w = Inr (cn_file, w1)"
    and "titan_het_file env (get_variants env (tumor_data pair)) (sv_workdir (tumor_data pair))
           pair w1 = Inr (het_file, w2)"
    and "read_text w2 het_file = Some het_lines"
    and "3 \<le> length het_lines"
    and "run env items w = Inr (out, w3)"
  shows "\<exists>entry. out = (case normal_data pair of None \<Rightarrow> [] | Some n \<Rightarrow> [n]) @
                       [(tumor_data pair)
                          \<lparr>sv := Some ((case sv (tumor_data pair) of
                                          None \<Rightarrow> []
                                        | Some entries \<Rightarrow> entries) @ [entry])\<rparr>] \<and>
                 map_of entry ''variantcaller'' = Some (Str ''titancna'')"
proof -
  from assms(4,5) have "should_run het_file w2 = Inr True"
    by (auto simp: should_run_def should_run_loop_length)
  with assms(1-3,6) have "full_pipeline env pair cn_file het_file (sv_workdir (tumor_data pair)) w2 =
      Inr (out, w3)"
    by (simp add: run_def Let_def)
  then obtain sol v2 entry where
    final: "finalize_sv env sol
              ((tumor_data pair)\<lparr>sv := Some (case sv (tumor_data pair) of
                                               None \<Rightarrow> []
                                             | Some entries \<Rightarrow> entries)\<rparr>) v2 = Inr (entry, w3)" and
    out: "out = (case normal_data pair of None \<Rightarrow> [] | Some n \<Rightarrow> [n]) @
                [(tumor_data pair)
                   \<lparr>sv := Some ((case sv (tumor_data pair) of
                                   None \<Rightarrow> []
                                 | Some entries \<Rightarrow> entries) @ [entry])\<rparr>]"
    by (auto simp: full_pipeline_def Let_def split: sum.splits)
  from finalize_sv_result [OF final] out show ?thesis
    by blast
qed

theorem run_appends_one_entry_witness:
  "\<exists>entry w3. run demo_env [demo_tumor, demo_normal] (demo_world [''r1'', ''r2'']) =
       Inr ([demo_normal, demo_tumor\<lparr>sv := Some [entry]\<rparr>], w3) \<and>
     map_of entry ''variantcaller'' = Some (Str ''titancna'')"
proof -
  let ?w = "demo_world [''r1'', ''r2'']"
  let ?cn = "titan_cn_file demo_env (get_normalized_depth (tumor_data demo_pair))
               (sv_workdir (tumor_data demo_pair)) (tumor_data demo_pair) ?w"
  let ?het = "titan_het_file demo_env (get_variants demo_env (tumor_data demo_pair))
                (sv_workdir (tumor_data demo_pair)) demo_pair (snd (projr ?cn))"
  let ?header = "join [TAB] (write_header OutWriter) @ [NL]"
  have two: "?cn = Inr (projr ?cn)" "?het = Inr (projr ?het)"
    "read_text (snd (projr ?het)) (fst (projr ?het)) = Some [?header, ''r1'', ''r2'']"
    by code_simp+
  obtain cn2 v1 where c2: "projr ?cn = (cn2, v1)" by (cases "projr ?cn")
  obtain het2 v2 where h2: "projr ?het = (het2, v2)" by (cases "projr ?het")
  from demo_run_ok obtain out w3 where
    ok: "run demo_env demo_items ?w = Inr (out, w3)"
    by (cases "run demo_env demo_items ?w") auto
  from run_appends_one_entry [of demo_env demo_items demo_pair ?w cn2 v1 het2 v2
      "[?header, ''r1'', ''r2'']" out w3] demo_names(1) two c2 h2 ok
  obtain entry where
    "out = (case normal_data demo_pair of None \<Rightarrow> [] | Some n \<Rightarrow> [n]) @
           [(tumor_data demo_pair)
              \<lparr>sv := Some ((case sv (tumor_data demo_pair) of
                              None \<Rightarrow> []
                            | Some entries \<Rightarrow> entries) @ [entry])\<rparr>]"
    "map_of entry ''variantcaller'' = Some (Str ''titancna'')"
    by auto
  with ok show ?thesis
    by (auto simp: demo_names(8-10) demo_items_def)
qed

end
